theory Spec2Isabelle
  imports Main "HOL-Library.Word" "HOL-Library.Sublist"
begin

unbundle bit_operations_syntax

section \<open>Fixed-point amounts\<close>

text \<open>
  Every amount column of the store is \<open>Decimal(19,4)\<close> (libs/db/README.md), and the
  services hold amounts as \<open>Prisma.Decimal\<close> objects (decimal.js). A decimal value is
  modelled exactly, as the integer number of ten-thousandths: \<open>10000000\<close> stands for
  1000.0000. Addition, negation and comparison of decimals are those of \<open>int\<close>.
\<close>

type_synonym decimal = int

definition digit_char :: "nat \<Rightarrow> char" where
  "digit_char n = char_of (48 + n)"

definition is_digit :: "char \<Rightarrow> bool" where
  "is_digit c = (48 \<le> (of_char c :: nat) \<and> (of_char c :: nat) \<le> 57)"

definition digit_val :: "char \<Rightarrow> int" where
  "digit_val c = int (of_char c - 48)"

text \<open>
  Decimal digits of a non-negative integer, most significant first (\<open>String(n)\<close>).
\<close>

function show_nat :: "int \<Rightarrow> string" where
  "show_nat n =
     (if n < 10 then [digit_char (nat n)]
      else show_nat (n div 10) @ [digit_char (nat (n mod 10))])"
  by pat_completeness auto
termination
  by (relation "measure nat") auto

declare show_nat.simps [simp del]

definition show_int :: "int \<Rightarrow> string" where
  "show_int i = (if i < 0 then CHR ''-'' # show_nat (- i) else show_nat i)"

definition read_nat :: "string \<Rightarrow> int" where
  "read_nat s = foldl (\<lambda>a c. 10 * a + digit_val c) 0 s"

definition strip_zeros :: "string \<Rightarrow> string" where
  "strip_zeros s = rev (dropWhile (\<lambda>c. c = CHR ''0'') (rev s))"

definition frac4 :: "int \<Rightarrow> string" where
  "frac4 f = [digit_char (nat (f div 1000 mod 10)), digit_char (nat (f div 100 mod 10)),
              digit_char (nat (f div 10 mod 10)), digit_char (nat (f mod 10))]"

text \<open>
  \<open>Decimal.prototype.toString\<close> of decimal.js, for values of scale 4 below the
  exponential-notation threshold (1e21): an optional minus sign, the integer digits, and
  the fractional digits with trailing zeros removed; no decimal point for an integer.
  So 1000.0000 prints as \<open>1000\<close> and 0.5000 as \<open>0.5\<close>.
\<close>

definition Decimal_toString :: "decimal \<Rightarrow> string" where
  "Decimal_toString d =
     (let a = \<bar>d\<bar>; ip = a div 10000; fp = a mod 10000
      in (if d < 0 then ''-'' else '''') @ show_nat ip @
         (if fp = 0 then '''' else CHR ''.'' # strip_zeros (frac4 fp)))"

text \<open>
  \<open>Decimal.prototype.toFixed(4)\<close>: the canonical string at scale 4 that the
  specification names, \<open>1000.0000\<close> for the integer amount 1000.
\<close>

definition Decimal_toFixed4 :: "decimal \<Rightarrow> string" where
  "Decimal_toFixed4 d =
     (let a = \<bar>d\<bar>
      in (if d < 0 then ''-'' else '''') @ show_nat (a div 10000) @ CHR ''.'' # frac4 (a mod 10000))"

text \<open>
  \<open>new Prisma.Decimal(str)\<close> followed by storage in a scale-4 column, for strings in
  plain notation: an optional sign, then \<open>digits\<close>, \<open>digits.digits\<close>, \<open>digits.\<close> or
  \<open>.digits\<close>, with at most four fractional digits. The constructor throws a DecimalError
  on a string that is not a number; that is \<open>None\<close> here. Exponent notation and longer
  fractions are not modelled and also give \<open>None\<close>.
\<close>

definition Decimal_unsigned :: "string \<Rightarrow> decimal option" where
  "Decimal_unsigned s =
     (let ip = takeWhile (\<lambda>c. c \<noteq> CHR ''.'') s;
          rest = dropWhile (\<lambda>c. c \<noteq> CHR ''.'') s;
          fp = (case rest of [] \<Rightarrow> [] | _ # f \<Rightarrow> f)
      in if list_all is_digit ip \<and> list_all is_digit fp \<and> length fp \<le> 4 \<and> (ip \<noteq> [] \<or> fp \<noteq> [])
         then Some (read_nat ip * 10000 + read_nat fp * 10 ^ (4 - length fp))
         else None)"

definition Decimal_new :: "string \<Rightarrow> decimal option" where
  "Decimal_new s =
     (case s of
        [] \<Rightarrow> None
      | c # r \<Rightarrow>
          if c = CHR ''-'' then map_option uminus (Decimal_unsigned r)
          else if c = CHR ''+'' then Decimal_unsigned r
          else Decimal_unsigned s)"

section \<open>JSON.stringify of the hash input\<close>

definition hexdigit :: "nat \<Rightarrow> char" where
  "hexdigit n = ''0123456789abcdef'' ! n"

text \<open>
  Strings are byte strings (UTF-8). \<open>JSON.stringify\<close> escapes the double quote, the
  backslash and the control characters below 0x20, and copies every other character.
\<close>

definition json_escape_char :: "char \<Rightarrow> string" where
  "json_escape_char c =
     (let n = (of_char c :: nat) in
      if n = 34 then [char_of (92::nat), char_of (34::nat)]
      else if n = 92 then [char_of (92::nat), char_of (92::nat)]
      else if n = 8 then char_of (92::nat) # ''b''
      else if n = 12 then char_of (92::nat) # ''f''
      else if n = 10 then char_of (92::nat) # ''n''
      else if n = 13 then char_of (92::nat) # ''r''
      else if n = 9 then char_of (92::nat) # ''t''
      else if n < 32 then char_of (92::nat) # ''u00'' @ [hexdigit (n div 16), hexdigit (n mod 16)]
      else [c])"

definition json_string :: "string \<Rightarrow> string" where
  "json_string s = char_of (34::nat) # concat (map json_escape_char s) @ [char_of (34::nat)]"

definition json_nullable :: "string option \<Rightarrow> string" where
  "json_nullable v = (case v of None \<Rightarrow> ''null'' | Some s \<Rightarrow> json_string s)"

definition json_key :: "string \<Rightarrow> string" where
  "json_key k = json_string k @ '':''"

section \<open>SHA-256\<close>

text \<open>
  \<open>crypto.createHash('sha256').update(s).digest('hex')\<close>: SHA-256 (FIPS 180-4) of the
  bytes of \<open>s\<close>, as 64 lowercase hexadecimal characters.
\<close>

type_synonym u32 = "32 word"

definition rotr :: "nat \<Rightarrow> u32 \<Rightarrow> u32" where
  "rotr n x = (drop_bit n x) OR (push_bit (32 - n) x)"

text \<open>
  The round constants (the first 32 bits of the fractional parts of the cube roots of the
  first 64 primes) and the initial hash value (of the square roots of the first 8
  primes), written in decimal.
\<close>

definition K256 :: "u32 list" where
  "K256 =
     [1116352408, 1899447441, 3049323471, 3921009573, 961987163, 1508970993,
      2453635748, 2870763221, 3624381080, 310598401, 607225278, 1426881987,
      1925078388, 2162078206, 2614888103, 3248222580, 3835390401, 4022224774,
      264347078, 604807628, 770255983, 1249150122, 1555081692, 1996064986,
      2554220882, 2821834349, 2952996808, 3210313671, 3336571891, 3584528711,
      113926993, 338241895, 666307205, 773529912, 1294757372, 1396182291,
      1695183700, 1986661051, 2177026350, 2456956037, 2730485921, 2820302411,
      3259730800, 3345764771, 3516065817, 3600352804, 4094571909, 275423344,
      430227734, 506948616, 659060556, 883997877, 958139571, 1322822218,
      1537002063, 1747873779, 1955562222, 2024104815, 2227730452, 2361852424,
      2428436474, 2756734187, 3204031479, 3329325298]"

definition H0 :: "u32 list" where
  "H0 =
     [1779033703, 3144134277, 1013904242, 2773480762,
      1359893119, 2600822924, 528734635, 1541459225]"

definition ssig0 :: "u32 \<Rightarrow> u32" where
  "ssig0 x = rotr 7 x XOR rotr 18 x XOR drop_bit 3 x"

definition ssig1 :: "u32 \<Rightarrow> u32" where
  "ssig1 x = rotr 17 x XOR rotr 19 x XOR drop_bit 10 x"

definition bsig0 :: "u32 \<Rightarrow> u32" where
  "bsig0 x = rotr 2 x XOR rotr 13 x XOR rotr 22 x"

definition bsig1 :: "u32 \<Rightarrow> u32" where
  "bsig1 x = rotr 6 x XOR rotr 11 x XOR rotr 25 x"

definition ch :: "u32 \<Rightarrow> u32 \<Rightarrow> u32 \<Rightarrow> u32" where
  "ch x y z = (x AND y) XOR (NOT x AND z)"

definition maj :: "u32 \<Rightarrow> u32 \<Rightarrow> u32 \<Rightarrow> u32" where
  "maj x y z = (x AND y) XOR (x AND z) XOR (y AND z)"

text \<open>The message schedule; the list holds the words computed so far, newest first.\<close>

fun schedule :: "nat \<Rightarrow> u32 list \<Rightarrow> u32 list" where
  "schedule 0 ws = ws"
| "schedule (Suc n) ws =
     schedule n ((ssig1 (ws ! 1) + ws ! 6 + ssig0 (ws ! 14) + ws ! 15) # ws)"

fun round256 :: "u32 list \<Rightarrow> (u32 \<times> u32) \<Rightarrow> u32 list" where
  "round256 [a, b, c, d, e, f, g, h] (k, w) =
     (let t1 = h + bsig1 e + ch e f g + k + w;
          t2 = bsig0 a + maj a b c
      in [t1 + t2, a, b, c, d + t1, e, f, g])"
| "round256 st _ = st"

definition compress :: "u32 list \<Rightarrow> u32 list \<Rightarrow> u32 list" where
  "compress st blockw =
     map2 (+) st (foldl round256 st (zip K256 (rev (schedule 48 (rev blockw)))))"

fun be32 :: "8 word list \<Rightarrow> u32 list" where
  "be32 (a # b # c # d # r) =
     (push_bit 24 (ucast a) OR push_bit 16 (ucast b) OR push_bit 8 (ucast c) OR ucast d) # be32 r"
| "be32 _ = []"

fun chunks :: "nat \<Rightarrow> 'a list \<Rightarrow> 'a list list" where
  "chunks n [] = []"
| "chunks n xs =
     (if n = 0 then [xs]
      else take n xs # (if length xs \<le> n then [] else chunks n (drop n xs)))"

definition pad :: "8 word list \<Rightarrow> 8 word list" where
  "pad m =
     (let l = length m; z = (119 - l mod 64) mod 64; bits = (of_nat (8 * l) :: 64 word)
      in m @ [0x80] @ replicate z 0 @ map (\<lambda>i. ucast (drop_bit (8 * (7 - i)) bits)) [0..<8])"

definition sha256_blocks :: "string \<Rightarrow> u32 list list" where
  "sha256_blocks s = chunks 16 (be32 (pad (map of_char s)))"

definition hex32 :: "u32 \<Rightarrow> string" where
  "hex32 w = map (\<lambda>i. hexdigit (unat (drop_bit (4 * (7 - i)) w AND 15))) [0..<8]"

definition sha256_hex :: "string \<Rightarrow> string" where
  "sha256_hex s = concat (map hex32 (foldl compress H0 (sha256_blocks s)))"

section \<open>Ledger core\<close>

datatype LedgerEntryType = CREDIT | DEBIT

definition entryType_string :: "LedgerEntryType \<Rightarrow> string" where
  "entryType_string t = (case t of CREDIT \<Rightarrow> ''CREDIT'' | DEBIT \<Rightarrow> ''DEBIT'')"

text \<open>
  The argument of \<open>JSON.stringify\<close> in \<open>computeEntryHash\<close>: an object literal with
  the seven keys in this order; \<open>walletSeq\<close> is a number, \<open>prevHash\<close> and
  \<open>description\<close> are strings or \<open>null\<close>, the others strings.
\<close>

definition canonical :: "string option \<Rightarrow> string \<Rightarrow> int \<Rightarrow> string \<Rightarrow> string \<Rightarrow> string
    \<Rightarrow> string option \<Rightarrow> string" where
  "canonical prevHash accountId walletSeq reference entryType amount description =
     ''{'' @ json_key ''prevHash'' @ json_nullable prevHash @
     '','' @ json_key ''accountId'' @ json_string accountId @
     '','' @ json_key ''walletSeq'' @ show_int walletSeq @
     '','' @ json_key ''reference'' @ json_string reference @
     '','' @ json_key ''entryType'' @ json_string entryType @
     '','' @ json_key ''amount'' @ json_string amount @
     '','' @ json_key ''description'' @ json_nullable description @ ''}''"

definition computeEntryHash :: "string option \<Rightarrow> string \<Rightarrow> int \<Rightarrow> string \<Rightarrow> string \<Rightarrow> string
    \<Rightarrow> string option \<Rightarrow> string" where
  "computeEntryHash prevHash accountId walletSeq reference entryType amount description =
     sha256_hex (canonical prevHash accountId walletSeq reference entryType amount description)"

text \<open>
  Row identifiers are generated by the store; they are modelled as the position at which
  the row was inserted (no table of the model ever loses a row). Timestamps that no
  function of the model reads (\<open>createdAt\<close>, \<open>lastUpdatedAt\<close>) are left out.
\<close>

record LedgerEntry =
  id :: nat
  accountId :: string
  walletSeq :: int
  reference :: string
  orderId :: "string option"
  entryType :: LedgerEntryType
  amount :: decimal
  description :: "string option"
  prevHash :: "string option"
  entryHash :: string

record WalletBalanceCache =
  c_accountId :: string
  c_balance :: decimal
  c_currency :: string
  c_lastEntrySeq :: int

datatype AmountInput = AmountString string | AmountDecimal decimal

record AppendEntryParams =
  p_reference :: string
  p_orderId :: "string option"
  p_accountId :: string
  p_entryType :: LedgerEntryType
  p_amount :: AmountInput
  p_description :: "string option"

record AppendEntryResult =
  r_id :: nat
  r_accountId :: string
  r_walletSeq :: int
  r_reference :: string
  r_entryType :: LedgerEntryType
  r_amount :: decimal
  r_entryHash :: string
  r_prevHash :: "string option"

record VerifyChainResult =
  v_accountId :: string
  v_valid :: bool
  v_entriesVerified :: int
  v_brokenAtSeq :: "int option"
  v_expectedHash :: "string option"
  v_actualHash :: "string option"
  v_message :: string

datatype PaymentIntentStatus = PENDING | INITIATED | CONFIRMING | SETTLED | FAILED | EXPIRED | REFUNDED

text \<open>
  The enum \<open>PaymentProvider\<close> is declared in the generated database client, which is
  not part of the sources; the only member the sources name is \<open>flutterwave\<close>.
  \<open>other_provider\<close> stands for every other member.
\<close>

datatype PaymentProvider = flutterwave | other_provider string

record PaymentIntent =
  pi_id :: nat
  pi_reference :: string
  pi_orderId :: string
  pi_amount :: decimal
  pi_originalAmount :: decimal
  pi_discountAmount :: decimal
  pi_discountCode :: "string option"
  pi_provider :: PaymentProvider
  pi_currency :: string
  pi_status :: PaymentIntentStatus
  pi_metadata :: "string option"

datatype WebhookStatus = RECEIVED | VERIFIED | PROCESSED | WH_FAILED | DUPLICATE

record WebhookInbox =
  wh_id :: nat
  wh_provider :: PaymentProvider
  wh_providerEventId :: string
  wh_reference :: "string option"
  wh_payload :: string
  wh_headers :: "(string \<times> string) list"
  wh_status :: WebhookStatus
  wh_errorMessage :: "string option"
  wh_processedAt :: "nat option"

text \<open>The tables of the shared store. Rows are kept in insertion order.\<close>

record db =
  ledgerEntry :: "LedgerEntry list"
  walletBalanceCache :: "string \<rightharpoonup> WalletBalanceCache"
  paymentIntent :: "PaymentIntent list"
  webhookInbox :: "WebhookInbox list"

text \<open>
  Everything the services throw. The ledger core throws plain \<open>Error\<close> objects with
  a message; they are named here after the failure kinds of the specification, and carry
  the values the message is built from.
\<close>

datatype error =
    DecimalError string
  | INSUFFICIENT_BALANCE string decimal string
  | DEBIT_ON_NON_EXISTENT_WALLET string
  | INTENT_NOT_FOUND
  | INVALID_STATUS_FOR_SETTLEMENT PaymentIntentStatus
  | INVALID_AMOUNTS
  | INVALID_AMOUNT
  | DISCOUNT_CODE_REQUIRED
  | INVALID_DISCOUNT

text \<open>
  A function that runs against a transaction client takes the store and returns the
  store as it has written it so far, with either the value it returns or the error it
  throws: \<open>(tx', Inl e)\<close> is a throw in the state \<open>tx'\<close>.
\<close>

type_synonym 'a tx = "db \<Rightarrow> db \<times> (error + 'a)"

text \<open>
  \<open>prisma.$transaction(callback)\<close>: when the callback throws, the transaction is rolled
  back and the error is rethrown; otherwise its writes are committed.
\<close>

definition transaction :: "'a tx \<Rightarrow> 'a tx" where
  "transaction callback s =
     (case callback s of
        (s', Inl e) \<Rightarrow> (s, Inl e)
      | (s', Inr r) \<Rightarrow> (s', Inr r))"

text \<open>\<open>ledgerEntry.findUnique({where: {accountId_reference: ...}})\<close>\<close>

definition findUnique_accountId_reference :: "LedgerEntry list \<Rightarrow> string \<Rightarrow> string \<Rightarrow> LedgerEntry option" where
  "findUnique_accountId_reference es a r = find (\<lambda>e. accountId e = a \<and> reference e = r) es"

text \<open>
  \<open>ledgerEntry.findFirst({where: {accountId}, orderBy: {walletSeq: 'desc'}})\<close>: the
  entry of the account with the greatest sequence number (the first one inserted, should
  two share it).
\<close>

fun max_walletSeq :: "LedgerEntry list \<Rightarrow> LedgerEntry option" where
  "max_walletSeq [] = None"
| "max_walletSeq (e # es) =
     (case max_walletSeq es of
        None \<Rightarrow> Some e
      | Some m \<Rightarrow> if walletSeq m > walletSeq e then Some m else Some e)"

definition findFirst_last :: "LedgerEntry list \<Rightarrow> string \<Rightarrow> LedgerEntry option" where
  "findFirst_last es a = max_walletSeq (filter (\<lambda>e. accountId e = a) es)"

definition toResult :: "LedgerEntry \<Rightarrow> AppendEntryResult" where
  "toResult e =
     \<lparr>r_id = id e, r_accountId = accountId e, r_walletSeq = walletSeq e,
      r_reference = reference e, r_entryType = entryType e, r_amount = amount e,
      r_entryHash = entryHash e, r_prevHash = prevHash e\<rparr>"

text \<open>\<open>typeof amount === 'string' ? amount : amount.toString()\<close>\<close>

definition amountStr_of :: "AmountInput \<Rightarrow> string" where
  "amountStr_of a = (case a of AmountString s \<Rightarrow> s | AmountDecimal d \<Rightarrow> Decimal_toString d)"

definition appendEntry :: "AppendEntryParams \<Rightarrow> AppendEntryResult tx" where
  "appendEntry params tx =
     (let amountStr = amountStr_of (p_amount params)
      in case Decimal_new amountStr of
           None \<Rightarrow> (tx, Inl (DecimalError amountStr))
         | Some amountDecimal \<Rightarrow>
            (case findUnique_accountId_reference (ledgerEntry tx) (p_accountId params) (p_reference params) of
               Some existingEntry \<Rightarrow> (tx, Inr (toResult existingEntry))
             | None \<Rightarrow>
                (let lastEntry = findFirst_last (ledgerEntry tx) (p_accountId params);
                     prevHash' = map_option entryHash lastEntry;
                     walletSeq' = (case lastEntry of None \<Rightarrow> 0 | Some l \<Rightarrow> walletSeq l) + 1;
                     entryHash' = computeEntryHash prevHash' (p_accountId params) walletSeq'
                                    (p_reference params) (entryType_string (p_entryType params))
                                    amountStr (p_description params);
                     entry = \<lparr>id = length (ledgerEntry tx), accountId = p_accountId params,
                              walletSeq = walletSeq', reference = p_reference params,
                              orderId = p_orderId params, entryType = p_entryType params,
                              amount = amountDecimal, description = p_description params,
                              prevHash = prevHash', entryHash = entryHash'\<rparr>;
                     tx1 = tx\<lparr>ledgerEntry := ledgerEntry tx @ [entry]\<rparr>;
                     balanceChange = (if p_entryType params = CREDIT then amountDecimal
                                      else - amountDecimal)
                 in case walletBalanceCache tx1 (p_accountId params) of
                      Some existingBalance \<Rightarrow>
                        (let newBalance = c_balance existingBalance + balanceChange
                         in if newBalance < 0
                            then (tx1, Inl (INSUFFICIENT_BALANCE (p_accountId params)
                                              (c_balance existingBalance) amountStr))
                            else (tx1\<lparr>walletBalanceCache := (walletBalanceCache tx1)
                                        (p_accountId params \<mapsto>
                                           existingBalance\<lparr>c_balance := newBalance,
                                                             c_lastEntrySeq := walletSeq'\<rparr>)\<rparr>,
                                  Inr (toResult entry)))
                    | None \<Rightarrow>
                        if p_entryType params = DEBIT
                        then (tx1, Inl (DEBIT_ON_NON_EXISTENT_WALLET (p_accountId params)))
                        else (tx1\<lparr>walletBalanceCache := (walletBalanceCache tx1)
                                    (p_accountId params \<mapsto>
                                       \<lparr>c_accountId = p_accountId params, c_balance = amountDecimal,
                                        c_currency = ''NGN'', c_lastEntrySeq = walletSeq'\<rparr>)\<rparr>,
                              Inr (toResult entry)))))"

text \<open>
  \<open>verifyChain\<close>. \<open>findMany\<close> selects the entries of the account inside the window,
  in ascending order of \<open>walletSeq\<close>; the loop is \<open>verifyLoop\<close>. The filter is
  built by spreading \<open>{walletSeq: {gte: fromSeq}}\<close> and then
  \<open>{walletSeq: {lte: toSeq}}\<close> into one object literal, so when both bounds are given
  the second \<open>walletSeq\<close> key replaces the first and only the upper bound filters.
\<close>

definition in_window :: "int option \<Rightarrow> int option \<Rightarrow> int \<Rightarrow> bool" where
  "in_window fromSeq toSeq k =
     (case toSeq of
        Some t \<Rightarrow> k \<le> t
      | None \<Rightarrow> (case fromSeq of Some f \<Rightarrow> f \<le> k | None \<Rightarrow> True))"

fun verifyLoop :: "string \<Rightarrow> int option \<Rightarrow> string option \<Rightarrow> nat \<Rightarrow> LedgerEntry list \<Rightarrow> VerifyChainResult" where
  "verifyLoop acc fromSeq prev n [] =
     \<lparr>v_accountId = acc, v_valid = True, v_entriesVerified = int n, v_brokenAtSeq = None,
      v_expectedHash = None, v_actualHash = None, v_message = ''Chain integrity verified''\<rparr>"
| "verifyLoop acc fromSeq prev n (entry # rest) =
     (let expectedHash = computeEntryHash prev (accountId entry) (walletSeq entry)
                           (reference entry) (entryType_string (entryType entry))
                           (Decimal_toString (amount entry)) (description entry)
      in if expectedHash \<noteq> entryHash entry
         then \<lparr>v_accountId = acc, v_valid = False,
               v_entriesVerified = walletSeq entry - (case fromSeq of None \<Rightarrow> 1 | Some f \<Rightarrow> f),
               v_brokenAtSeq = Some (walletSeq entry), v_expectedHash = Some expectedHash,
               v_actualHash = Some (entryHash entry),
               v_message = ''Chain broken at sequence '' @ show_int (walletSeq entry)\<rparr>
         else if prevHash entry \<noteq> prev
         then \<lparr>v_accountId = acc, v_valid = False,
               v_entriesVerified = walletSeq entry - (case fromSeq of None \<Rightarrow> 1 | Some f \<Rightarrow> f),
               v_brokenAtSeq = Some (walletSeq entry),
               v_expectedHash = Some (case prev of None \<Rightarrow> ''null'' | Some h \<Rightarrow> h),
               v_actualHash = Some (case prevHash entry of None \<Rightarrow> ''null'' | Some h \<Rightarrow> h),
               v_message = ''Previous hash mismatch at sequence '' @ show_int (walletSeq entry)\<rparr>
         else verifyLoop acc fromSeq (Some (entryHash entry)) n rest)"

definition verifyChain :: "db \<Rightarrow> string \<Rightarrow> int option \<Rightarrow> int option \<Rightarrow> VerifyChainResult" where
  "verifyChain prisma acc fromSeq toSeq =
     (let entries = sort_key walletSeq
                      (filter (\<lambda>e. accountId e = acc \<and> in_window fromSeq toSeq (walletSeq e))
                         (ledgerEntry prisma))
      in if entries = []
         then \<lparr>v_accountId = acc, v_valid = True, v_entriesVerified = 0, v_brokenAtSeq = None,
               v_expectedHash = None, v_actualHash = None,
               v_message = ''No entries found for account''\<rparr>
         else
           (let prevHash0 =
                  (case fromSeq of
                     None \<Rightarrow> None
                   | Some f \<Rightarrow>
                       if f > 1
                       then map_option entryHash
                              (find (\<lambda>e. accountId e = acc \<and> walletSeq e = f - 1) (ledgerEntry prisma))
                       else None)
            in verifyLoop acc fromSeq prevHash0 (length entries) entries))"

text \<open>\<open>recomputeBalance\<close>: the reduction over all entries of an account.\<close>

definition recomputeBalance :: "db \<Rightarrow> string \<Rightarrow> decimal" where
  "recomputeBalance prisma acc =
     foldl (\<lambda>balance entry. if entryType entry = CREDIT then balance + amount entry
                             else balance - amount entry)
       0 (filter (\<lambda>e. accountId e = acc) (ledgerEntry prisma))"

section \<open>Seed script\<close>

record SystemAccount =
  sa_accountId :: string
  sa_initialBalance :: string
  sa_description :: string

definition SYSTEM_ACCOUNTS :: "SystemAccount list" where
  "SYSTEM_ACCOUNTS =
     [\<lparr>sa_accountId = ''MARKETING_WALLET'', sa_initialBalance = ''1000000.0000'',
       sa_description = ''Marketing subsidy wallet for discount campaigns''\<rparr>,
      \<lparr>sa_accountId = ''PLATFORM_ESCROW'', sa_initialBalance = ''0.0000'',
       sa_description = ''Platform escrow for payment collection''\<rparr>,
      \<lparr>sa_accountId = ''LEGACY_MIGRATION_WALLET'', sa_initialBalance = ''0.0000'',
       sa_description = ''Wallet for legacy data migration entries''\<rparr>]"

text \<open>
  One iteration of the loop of \<open>main\<close> in the seed script. It writes the balance row and
  then, for a non-zero initial balance, the genesis entry, whose hash it computes itself
  from the string \<open>initialBalance\<close>. The store converts the string to a decimal.
\<close>

definition seedAccount :: "SystemAccount \<Rightarrow> unit tx" where
  "seedAccount account prisma =
     (case walletBalanceCache prisma (sa_accountId account) of
        Some existingWallet \<Rightarrow> (prisma, Inr ())
      | None \<Rightarrow>
         (case Decimal_new (sa_initialBalance account) of
            None \<Rightarrow> (prisma, Inl (DecimalError (sa_initialBalance account)))
          | Some initial \<Rightarrow>
             (let prisma1 = prisma\<lparr>walletBalanceCache := (walletBalanceCache prisma)
                               (sa_accountId account \<mapsto>
                                  \<lparr>c_accountId = sa_accountId account, c_balance = initial,
                                   c_currency = ''NGN'',
                                   c_lastEntrySeq = (if sa_initialBalance account \<noteq> ''0.0000''
                                                     then 1 else 0)\<rparr>)\<rparr>
              in if sa_initialBalance account \<noteq> ''0.0000''
                 then
                   (let reference' = ''GENESIS_'' @ sa_accountId account;
                        description' = sa_description account @ '' - Initial funding'';
                        entryHash' = computeEntryHash None (sa_accountId account) 1 reference'
                                       ''CREDIT'' (sa_initialBalance account) (Some description')
                    in (prisma1\<lparr>ledgerEntry := ledgerEntry prisma1 @
                          [\<lparr>id = length (ledgerEntry prisma1), accountId = sa_accountId account,
                            walletSeq = 1, reference = reference', orderId = None,
                            entryType = CREDIT, amount = initial,
                            description = Some description', prevHash = None,
                            entryHash = entryHash'\<rparr>]\<rparr>, Inr ()))
                 else (prisma1, Inr ()))))"

fun seedLoop :: "SystemAccount list \<Rightarrow> unit tx" where
  "seedLoop [] prisma = (prisma, Inr ())"
| "seedLoop (account # rest) prisma =
     (case seedAccount account prisma of
        (prisma', Inl e) \<Rightarrow> (prisma', Inl e)
      | (prisma', Inr _) \<Rightarrow> seedLoop rest prisma')"

definition seed_main :: "unit tx" where
  "seed_main = seedLoop SYSTEM_ACCOUNTS"

definition empty_db :: db where
  "empty_db = \<lparr>ledgerEntry = [], walletBalanceCache = Map.empty, paymentIntent = [],
               webhookInbox = []\<rparr>"

section \<open>Settlement service\<close>

definition PLATFORM_ESCROW :: string where
  "PLATFORM_ESCROW = ''PLATFORM_ESCROW''"

definition MARKETING_WALLET :: string where
  "MARKETING_WALLET = ''MARKETING_WALLET''"

record SettlementResult =
  sr_success :: bool
  sr_paymentIntentId :: nat
  sr_reference :: string
  sr_ledgerEntries :: "AppendEntryResult list"
  sr_message :: string

definition discountCode_text :: "string option \<Rightarrow> string" where
  "discountCode_text c = (case c of None \<Rightarrow> ''null'' | Some s \<Rightarrow> s)"

text \<open>
  The callback that \<open>settlePayment\<close> passes to \<open>$transaction\<close>. Log calls are left
  out; they write nothing to the store.
\<close>

definition settlePayment_callback :: "nat \<Rightarrow> SettlementResult tx" where
  "settlePayment_callback intentId tx =
     (case find (\<lambda>i. pi_id i = intentId) (paymentIntent tx) of
        None \<Rightarrow> (tx, Inl INTENT_NOT_FOUND)
      | Some intent \<Rightarrow>
         if pi_status intent = SETTLED
         then (tx, Inr \<lparr>sr_success = True, sr_paymentIntentId = intentId,
                        sr_reference = pi_reference intent,
                        sr_ledgerEntries =
                          map toResult
                            (filter (\<lambda>e. prefix (pi_reference intent) (reference e)) (ledgerEntry tx)),
                        sr_message = ''Payment already settled''\<rparr>)
         else if pi_status intent \<noteq> CONFIRMING
         then (tx, Inl (INVALID_STATUS_FOR_SETTLEMENT (pi_status intent)))
         else
           (case appendEntry
                   \<lparr>p_reference = pi_reference intent, p_orderId = Some (pi_orderId intent),
                    p_accountId = PLATFORM_ESCROW, p_entryType = CREDIT,
                    p_amount = AmountDecimal (pi_amount intent),
                    p_description = Some (''Payment received for order '' @ pi_orderId intent)\<rparr> tx of
              (tx1, Inl e) \<Rightarrow> (tx1, Inl e)
            | (tx1, Inr primaryEntry) \<Rightarrow>
               (case (if pi_discountAmount intent > 0
                      then
                        (let discountReference = pi_reference intent @ ''_DISC''
                         in case appendEntry
                                   \<lparr>p_reference = discountReference,
                                    p_orderId = Some (pi_orderId intent),
                                    p_accountId = MARKETING_WALLET, p_entryType = DEBIT,
                                    p_amount = AmountDecimal (pi_discountAmount intent),
                                    p_description =
                                      Some (''Discount subsidy for order '' @ pi_orderId intent @
                                            '' ('' @ discountCode_text (pi_discountCode intent) @ '')'')\<rparr>
                                   tx1 of
                              (tx2, Inl e) \<Rightarrow> (tx2, Inl e)
                            | (tx2, Inr marketingDebit) \<Rightarrow>
                               (case appendEntry
                                       \<lparr>p_reference = discountReference @ ''_ESCROW'',
                                        p_orderId = Some (pi_orderId intent),
                                        p_accountId = PLATFORM_ESCROW, p_entryType = CREDIT,
                                        p_amount = AmountDecimal (pi_discountAmount intent),
                                        p_description =
                                          Some (''Discount subsidy credit for order '' @
                                                pi_orderId intent)\<rparr> tx2 of
                                  (tx3, Inl e) \<Rightarrow> (tx3, Inl e)
                                | (tx3, Inr subsidyCredit) \<Rightarrow>
                                    (tx3, Inr [primaryEntry, marketingDebit, subsidyCredit])))
                      else (tx1, Inr [primaryEntry])) of
                  (tx3, Inl e) \<Rightarrow> (tx3, Inl e)
                | (tx3, Inr ledgerEntries) \<Rightarrow>
                    (tx3\<lparr>paymentIntent :=
                            map (\<lambda>i. if pi_id i = intentId then i\<lparr>pi_status := SETTLED\<rparr> else i)
                              (paymentIntent tx3)\<rparr>,
                     Inr \<lparr>sr_success = True, sr_paymentIntentId = intentId,
                          sr_reference = pi_reference intent, sr_ledgerEntries = ledgerEntries,
                          sr_message = ''Payment settled successfully''\<rparr>))))"

definition settlePayment :: "nat \<Rightarrow> SettlementResult tx" where
  "settlePayment intentId = transaction (settlePayment_callback intentId)"

definition settlePaymentByReference :: "string \<Rightarrow> SettlementResult tx" where
  "settlePaymentByReference ref prisma =
     (case find (\<lambda>i. pi_reference i = ref) (paymentIntent prisma) of
        None \<Rightarrow> (prisma, Inl INTENT_NOT_FOUND)
      | Some intent \<Rightarrow> settlePayment (pi_id intent) prisma)"

section \<open>Payment intent service\<close>

record CreatePaymentIntentDto =
  dto_orderId :: string
  dto_amount :: string
  dto_originalAmount :: string
  dto_discountCode :: "string option"
  dto_provider :: PaymentProvider
  dto_currency :: "string option"
  dto_metadata :: "string option"

definition generatePaymentReference :: "string \<Rightarrow> string" where
  "generatePaymentReference oid = ''PAYMENT_'' @ oid"

text \<open>\<open>!discountCode\<close> holds for \<open>undefined\<close> and for the empty string.\<close>

definition falsy :: "string option \<Rightarrow> bool" where
  "falsy v = (case v of None \<Rightarrow> True | Some s \<Rightarrow> s = [])"

definition validateInvariants :: "decimal \<Rightarrow> decimal \<Rightarrow> decimal \<Rightarrow> string option \<Rightarrow> error option" where
  "validateInvariants amount' originalAmount discountAmount discountCode =
     (if originalAmount < amount' then Some INVALID_AMOUNTS
      else if amount' \<le> 0 then Some INVALID_AMOUNT
      else if discountAmount > 0 \<and> falsy discountCode then Some DISCOUNT_CODE_REQUIRED
      else if discountAmount < 0 then Some INVALID_DISCOUNT
      else None)"

definition create :: "CreatePaymentIntentDto \<Rightarrow> PaymentIntent tx" where
  "create dto prisma =
     (case Decimal_new (dto_amount dto) of
        None \<Rightarrow> (prisma, Inl (DecimalError (dto_amount dto)))
      | Some amount' \<Rightarrow>
         (case Decimal_new (dto_originalAmount dto) of
            None \<Rightarrow> (prisma, Inl (DecimalError (dto_originalAmount dto)))
          | Some originalAmount \<Rightarrow>
             (let discountAmount = originalAmount - amount'
              in case validateInvariants amount' originalAmount discountAmount (dto_discountCode dto) of
                   Some e \<Rightarrow> (prisma, Inl e)
                 | None \<Rightarrow>
                    (let reference' = generatePaymentReference (dto_orderId dto)
                     in case find (\<lambda>i. pi_reference i = reference') (paymentIntent prisma) of
                          Some existing \<Rightarrow> (prisma, Inr existing)
                        | None \<Rightarrow>
                           (let intent =
                                  \<lparr>pi_id = length (paymentIntent prisma), pi_reference = reference',
                                   pi_orderId = dto_orderId dto, pi_amount = amount',
                                   pi_originalAmount = originalAmount,
                                   pi_discountAmount = discountAmount,
                                   pi_discountCode = dto_discountCode dto,
                                   pi_provider = dto_provider dto,
                                   pi_currency = (if falsy (dto_currency dto) then ''NGN''
                                                  else the (dto_currency dto)),
                                   pi_status = PENDING, pi_metadata = dto_metadata dto\<rparr>
                            in (prisma\<lparr>paymentIntent := paymentIntent prisma @ [intent]\<rparr>,
                                Inr intent))))))"

section \<open>Webhook service\<close>

text \<open>The two variables of \<open>process.env\<close> that the webhook path reads.\<close>

record env =
  NODE_ENV :: "string option"
  FLUTTERWAVE_SECRET_HASH :: "string option"

record WebhookPayload =
  wp_provider :: PaymentProvider
  wp_providerEventId :: string
  wp_reference :: "string option"
  wp_payload :: string
  wp_headers :: "(string \<times> string) list"
  wp_rawBody :: string

record WebhookResult =
  wr_id :: nat
  wr_status :: WebhookStatus
  wr_isDuplicate :: bool
  wr_message :: string

text \<open>
  \<open>a || d\<close> where \<open>a\<close> is a string that may be undefined: \<open>a\<close> unless it is
  undefined or empty, else \<open>d\<close>.
\<close>

definition or_else :: "string option \<Rightarrow> string \<Rightarrow> string" where
  "or_else v d = (case v of None \<Rightarrow> d | Some s \<Rightarrow> if s = [] then d else s)"

definition verifyFlutterwaveSignature :: "env \<Rightarrow> string \<Rightarrow> string \<Rightarrow> string \<Rightarrow> bool" where
  "verifyFlutterwaveSignature e payload signature secretHash =
     (if NODE_ENV e = Some ''development'' then True else False)"

definition verifySignature :: "env \<Rightarrow> PaymentProvider \<Rightarrow> string \<Rightarrow> (string \<times> string) list \<Rightarrow> bool" where
  "verifySignature e provider rawBody headers =
     (case provider of
        flutterwave \<Rightarrow>
          (let signature = or_else (map_of headers ''verif-hash'')
                             (or_else (map_of headers ''x-flw-signature'') []);
               secretHash = or_else (FLUTTERWAVE_SECRET_HASH e) []
           in verifyFlutterwaveSignature e rawBody signature secretHash)
      | other_provider _ \<Rightarrow> NODE_ENV e = Some ''development'')"

text \<open>
  \<open>triggerSettlement\<close> logs and returns in both branches; it calls no other service
  and writes nothing.
\<close>

definition triggerSettlement :: "string option \<Rightarrow> nat \<Rightarrow> db \<Rightarrow> db" where
  "triggerSettlement reference' webhookId prisma =
     (if falsy reference' then prisma else prisma)"

definition update_webhook :: "nat \<Rightarrow> (WebhookInbox \<Rightarrow> WebhookInbox) \<Rightarrow> db \<Rightarrow> db" where
  "update_webhook wid f prisma =
     prisma\<lparr>webhookInbox := map (\<lambda>w. if wh_id w = wid then f w else w) (webhookInbox prisma)\<rparr>"

text \<open>
  \<open>processWebhook\<close>; \<open>now\<close> is the value of \<open>new Date()\<close>. The service does not run in
  a transaction: every write is committed as it is made.
\<close>

definition processWebhook :: "env \<Rightarrow> nat \<Rightarrow> WebhookPayload \<Rightarrow> db \<Rightarrow> db \<times> WebhookResult" where
  "processWebhook e now payload prisma =
     (case find (\<lambda>w. wh_provider w = wp_provider payload \<and>
                      wh_providerEventId w = wp_providerEventId payload) (webhookInbox prisma) of
        Some existing \<Rightarrow>
          ((if wh_status existing \<noteq> DUPLICATE
            then update_webhook (wh_id existing) (\<lambda>w. w\<lparr>wh_status := DUPLICATE\<rparr>) prisma
            else prisma),
           \<lparr>wr_id = wh_id existing, wr_status = DUPLICATE, wr_isDuplicate = True,
            wr_message = ''Webhook already processed''\<rparr>)
      | None \<Rightarrow>
         (let webhook = \<lparr>wh_id = length (webhookInbox prisma), wh_provider = wp_provider payload,
                         wh_providerEventId = wp_providerEventId payload,
                         wh_reference = wp_reference payload, wh_payload = wp_payload payload,
                         wh_headers = wp_headers payload, wh_status = RECEIVED,
                         wh_errorMessage = None, wh_processedAt = None\<rparr>;
              prisma1 = prisma\<lparr>webhookInbox := webhookInbox prisma @ [webhook]\<rparr>;
              isValid = verifySignature e (wp_provider payload) (wp_rawBody payload) (wp_headers payload)
          in if \<not> isValid
             then (update_webhook (wh_id webhook)
                     (\<lambda>w. w\<lparr>wh_status := WH_FAILED,
                             wh_errorMessage := Some ''Signature verification failed'',
                             wh_processedAt := Some now\<rparr>) prisma1,
                   \<lparr>wr_id = wh_id webhook, wr_status = WH_FAILED, wr_isDuplicate = False,
                    wr_message = ''Signature verification failed''\<rparr>)
             else
               (let prisma2 = update_webhook (wh_id webhook)
                                (\<lambda>w. w\<lparr>wh_status := VERIFIED, wh_processedAt := Some now\<rparr>) prisma1;
                    prisma3 = triggerSettlement (wp_reference payload) (wh_id webhook) prisma2;
                    prisma4 = update_webhook (wh_id webhook) (\<lambda>w. w\<lparr>wh_status := PROCESSED\<rparr>) prisma3
                in (prisma4,
                    \<lparr>wr_id = wh_id webhook, wr_status = PROCESSED, wr_isDuplicate = False,
                     wr_message = ''Webhook processed successfully''\<rparr>))))"

section \<open>Example stores\<close>

text \<open>An account W with one credit of 1000.0000 and the matching balance row.\<close>

definition ledger_example :: db where
  "ledger_example = empty_db
     \<lparr>ledgerEntry :=
        [\<lparr>id = 0, accountId = ''W'', walletSeq = 1, reference = ''R1'', orderId = None,
          entryType = CREDIT, amount = 10000000, description = None, prevHash = None,
          entryHash = computeEntryHash None ''W'' 1 ''R1'' ''CREDIT'' ''1000'' None\<rparr>],
      walletBalanceCache :=
        [''W'' \<mapsto> \<lparr>c_accountId = ''W'', c_balance = 10000000, c_currency = ''NGN'',
                    c_lastEntrySeq = 1\<rparr>]\<rparr>"



text \<open>A store with one payment intent of order O1 in status CONFIRMING.\<close>

definition confirming_example :: db where
  "confirming_example = empty_db\<lparr>paymentIntent :=
     [\<lparr>pi_id = 0, pi_reference = ''PAYMENT_O1'', pi_orderId = ''O1'', pi_amount = 100000000,
       pi_originalAmount = 100000000, pi_discountAmount = 0, pi_discountCode = None,
       pi_provider = flutterwave, pi_currency = ''NGN'', pi_status = CONFIRMING,
       pi_metadata = None\<rparr>]\<rparr>"

text \<open>
  A store as the seed script leaves it when MARKETING_WALLET holds \<open>funds\<close>, with one
  payment intent in status CONFIRMING: order O2, amount 8000.0000, original amount
  10000.0000, discount 2000.0000.
\<close>

definition intent_O2 :: PaymentIntent where
  "intent_O2 =
     \<lparr>pi_id = 0, pi_reference = ''PAYMENT_O2'', pi_orderId = ''O2'', pi_amount = 80000000,
      pi_originalAmount = 100000000, pi_discountAmount = 20000000,
      pi_discountCode = Some ''PROMO2024'', pi_provider = flutterwave, pi_currency = ''NGN'',
      pi_status = CONFIRMING, pi_metadata = None\<rparr>"

definition discount_example :: "decimal \<Rightarrow> db" where
  "discount_example funds =
     \<lparr>ledgerEntry =
        [\<lparr>id = 0, accountId = ''MARKETING_WALLET'', walletSeq = 1,
          reference = ''GENESIS_MARKETING_WALLET'', orderId = None, entryType = CREDIT,
          amount = funds,
          description = Some ''Marketing subsidy wallet for discount campaigns - Initial funding'',
          prevHash = None,
          entryHash = computeEntryHash None ''MARKETING_WALLET'' 1 ''GENESIS_MARKETING_WALLET''
                        ''CREDIT'' (Decimal_toFixed4 funds)
                        (Some ''Marketing subsidy wallet for discount campaigns - Initial funding'')\<rparr>],
      walletBalanceCache =
        [''MARKETING_WALLET'' \<mapsto> \<lparr>c_accountId = ''MARKETING_WALLET'', c_balance = funds,
                                   c_currency = ''NGN'', c_lastEntrySeq = 1\<rparr>,
         ''PLATFORM_ESCROW'' \<mapsto> \<lparr>c_accountId = ''PLATFORM_ESCROW'', c_balance = 0,
                                  c_currency = ''NGN'', c_lastEntrySeq = 0\<rparr>],
      paymentIntent = [intent_O2],
      webhookInbox = []\<rparr>"

text \<open>Two intents without discount, for the orders O1 and O10, both in status CONFIRMING.\<close>

definition two_confirming_example :: db where
  "two_confirming_example = empty_db\<lparr>paymentIntent :=
     [\<lparr>pi_id = 0, pi_reference = ''PAYMENT_O1'', pi_orderId = ''O1'', pi_amount = 100000000,
       pi_originalAmount = 100000000, pi_discountAmount = 0, pi_discountCode = None,
       pi_provider = flutterwave, pi_currency = ''NGN'', pi_status = CONFIRMING,
       pi_metadata = None\<rparr>,
      \<lparr>pi_id = 1, pi_reference = ''PAYMENT_O10'', pi_orderId = ''O10'', pi_amount = 50000000,
       pi_originalAmount = 50000000, pi_discountAmount = 0, pi_discountCode = None,
       pi_provider = flutterwave, pi_currency = ''NGN'', pi_status = CONFIRMING,
       pi_metadata = None\<rparr>]\<rparr>"

section \<open>Printing and reading decimals\<close>

text \<open>
  A decimal that has been printed by \<open>toString\<close> is read back by the constructor as the
  same value: \<open>new Prisma.Decimal(amount.toString())\<close> is \<open>amount\<close>.
\<close>

lemma digit_char_is_digit: "k < 10 \<Longrightarrow> is_digit (digit_char k)"
  by (simp add: is_digit_def digit_char_def)

lemma digit_val_digit_char: "k < 10 \<Longrightarrow> digit_val (digit_char k) = int k"
  by (simp add: digit_val_def digit_char_def)

lemma read_nat_snoc: "read_nat (s @ [c]) = 10 * read_nat s + digit_val c"
  by (simp add: read_nat_def)

lemma show_nat_digits: "0 \<le> n \<Longrightarrow> list_all is_digit (show_nat n)"
proof (induction n rule: show_nat.induct)
  case (1 n)
  show ?case
  proof (cases "n < 10")
    case True
    with 1 show ?thesis by (subst show_nat.simps) (simp add: digit_char_is_digit)
  next
    case False
    with 1 have "list_all is_digit (show_nat (n div 10))" by simp
    moreover have "nat (n mod 10) < 10" by simp
    ultimately show ?thesis using False
      by (subst show_nat.simps) (simp add: digit_char_is_digit)
  qed
qed

lemma show_nat_nonempty: "show_nat n \<noteq> []"
  by (subst show_nat.simps) simp

lemma read_show_nat: "0 \<le> n \<Longrightarrow> read_nat (show_nat n) = n"
proof (induction n rule: show_nat.induct)
  case (1 n)
  show ?case
  proof (cases "n < 10")
    case True
    with 1 show ?thesis
      by (subst show_nat.simps) (simp add: read_nat_def digit_val_digit_char)
  next
    case False
    with 1 have "read_nat (show_nat (n div 10)) = n div 10" by simp
    moreover have "digit_val (digit_char (nat (n mod 10))) = n mod 10"
      by (simp add: digit_val_digit_char)
    ultimately show ?thesis using False
      by (subst show_nat.simps) (simp add: read_nat_snoc)
  qed
qed

lemma strip_zeros_snoc:
  "strip_zeros (s @ [c]) = (if c = CHR ''0'' then strip_zeros s else s @ [c])"
  by (simp add: strip_zeros_def)

lemma strip_zeros_length: "length (strip_zeros s) \<le> length s"
  by (simp add: strip_zeros_def length_dropWhile_le order_trans[OF length_dropWhile_le])

lemma strip_zeros_digits: "list_all is_digit s \<Longrightarrow> list_all is_digit (strip_zeros s)"
  by (induction s rule: rev_induct) (simp_all add: strip_zeros_snoc strip_zeros_def)

lemma read_strip_zeros:
  "read_nat (strip_zeros s) * 10 ^ (length s - length (strip_zeros s)) = read_nat s"
proof (induction s rule: rev_induct)
  case Nil
  show ?case by (simp add: strip_zeros_def read_nat_def)
next
  case (snoc c s)
  show ?case
  proof (cases "c = CHR ''0''")
    case True
    have "Suc (length s) - length (strip_zeros s) = Suc (length s - length (strip_zeros s))"
      using strip_zeros_length [of s] by simp
    with True snoc show ?thesis
      by (simp add: strip_zeros_snoc read_nat_snoc digit_val_def)
  next
    case False
    then show ?thesis by (simp add: strip_zeros_snoc)
  qed
qed

lemma digits4: 
  fixes f :: int
  assumes "0 \<le> f" "f < 10000"
  shows "1000 * (f div 1000 mod 10) + 100 * (f div 100 mod 10) + 10 * (f div 10 mod 10) + f mod 10 = f"
proof -
  define q1 where "q1 = f div 10"
  define q2 where "q2 = q1 div 10"
  define q3 where "q3 = q2 div 10"
  define r0 where "r0 = f mod 10"
  define r1 where "r1 = q1 mod 10"
  define r2 where "r2 = q2 mod 10"
  have e0: "f = 10 * q1 + r0" unfolding q1_def r0_def by (rule mult_div_mod_eq [symmetric])
  have e1: "q1 = 10 * q2 + r1" unfolding q2_def r1_def by (rule mult_div_mod_eq [symmetric])
  have e2: "q2 = 10 * q3 + r2" unfolding q3_def r2_def by (rule mult_div_mod_eq [symmetric])
  have "f div (10 * 10) = f div 10 div 10" by (rule zdiv_zmult2_eq) simp
  then have d2: "f div 100 = q2" unfolding q2_def q1_def by simp
  have "f div (100 * 10) = f div 100 div 10" by (rule zdiv_zmult2_eq) simp
  then have d3: "f div 1000 = q3" unfolding q3_def d2 [symmetric] by simp
  have "0 \<le> q3" "q3 < 10" unfolding d3 [symmetric] using assms by simp_all
  then have m3: "q3 mod 10 = q3" by simp
  have "1000 * (q3 mod 10) + 100 * r2 + 10 * r1 + r0 = f"
    unfolding m3 using e0 e1 e2 by linarith
  then show ?thesis unfolding d2 d3 r0_def r1_def r2_def q1_def .
qed

lemma read_frac4: "0 \<le> f \<Longrightarrow> f < 10000 \<Longrightarrow> read_nat (frac4 f) = f"
proof -
  assume f: "0 \<le> f" "f < 10000"
  have d: "\<And>k::int. digit_val (digit_char (nat (k mod 10))) = k mod 10"
    by (simp add: digit_val_digit_char)
  have "read_nat (frac4 f) =
          1000 * (f div 1000 mod 10) + 100 * (f div 100 mod 10) + 10 * (f div 10 mod 10) + f mod 10"
    by (simp add: frac4_def read_nat_def d)
  also have "\<dots> = f" using f by (rule digits4)
  finally show ?thesis .
qed

lemma length_frac4: "length (frac4 f) = 4"
  by (simp add: frac4_def)

lemma frac4_digits: "list_all is_digit (frac4 f)"
  by (simp add: frac4_def digit_char_is_digit)

lemma Decimal_unsigned_show:
  assumes "0 \<le> ip" "0 \<le> fp" "fp < 10000"
  shows "Decimal_unsigned (show_nat ip @ (if fp = 0 then [] else CHR ''.'' # strip_zeros (frac4 fp)))
           = Some (ip * 10000 + fp)"
proof -
  have nodot: "\<forall>c \<in> set (show_nat ip). c \<noteq> CHR ''.''"
    using show_nat_digits [OF assms(1)] by (auto simp: list_all_iff is_digit_def)
  have tw: "\<And>r. takeWhile (\<lambda>c. c \<noteq> CHR ''.'') (show_nat ip @ CHR ''.'' # r) = show_nat ip"
    using nodot by (simp add: takeWhile_append2)
  have dw: "\<And>r. dropWhile (\<lambda>c. c \<noteq> CHR ''.'') (show_nat ip @ CHR ''.'' # r) = CHR ''.'' # r"
    using nodot by (simp add: dropWhile_append2)
  have tw0: "takeWhile (\<lambda>c. c \<noteq> CHR ''.'') (show_nat ip) = show_nat ip"
    using nodot by simp
  have dw0: "dropWhile (\<lambda>c. c \<noteq> CHR ''.'') (show_nat ip) = []"
    using nodot by simp
  show ?thesis
  proof (cases "fp = 0")
    case True
    then show ?thesis
      using show_nat_digits [OF assms(1)] read_show_nat [OF assms(1)]
      by (simp add: Decimal_unsigned_def tw0 dw0 show_nat_nonempty read_nat_def)
  next
    case False
    let ?t = "strip_zeros (frac4 fp)"
    have len: "length ?t \<le> 4" using strip_zeros_length [of "frac4 fp"] by (simp add: length_frac4)
    have "read_nat ?t * 10 ^ (length (frac4 fp) - length ?t) = fp"
      using read_strip_zeros [of "frac4 fp"] read_frac4 [OF assms(2,3)] by simp
    then have val: "read_nat ?t * 10 ^ (4 - length ?t) = fp" by (simp only: length_frac4)
    show ?thesis
      using False show_nat_digits [OF assms(1)] read_show_nat [OF assms(1)]
        strip_zeros_digits [OF frac4_digits, of fp] len val
      by (simp add: Decimal_unsigned_def tw dw show_nat_nonempty)
  qed
qed

lemma show_nat_hd: "0 \<le> n \<Longrightarrow> \<exists>c r. show_nat n = c # r \<and> is_digit c"
  using show_nat_digits [of n] show_nat_nonempty [of n]
  by (cases "show_nat n") auto

lemma Decimal_new_toString: "Decimal_new (Decimal_toString d) = Some d"
proof -
  define body where "body = show_nat (\<bar>d\<bar> div 10000) @
     (if \<bar>d\<bar> mod 10000 = 0 then [] else CHR ''.'' # strip_zeros (frac4 (\<bar>d\<bar> mod 10000)))"
  have "Decimal_unsigned body = Some (\<bar>d\<bar> div 10000 * 10000 + \<bar>d\<bar> mod 10000)"
    unfolding body_def by (rule Decimal_unsigned_show) simp_all
  then have u: "Decimal_unsigned body = Some \<bar>d\<bar>" by simp
  have ts: "Decimal_toString d = (if d < 0 then ''-'' else []) @ body"
    by (simp add: Decimal_toString_def Let_def body_def)
  show ?thesis
  proof (cases "d < 0")
    case True
    have "Decimal_new (CHR ''-'' # body) = map_option uminus (Decimal_unsigned body)"
      by (simp add: Decimal_new_def)
    with True u show ?thesis by (simp add: ts)
  next
    case False
    have "0 \<le> \<bar>d\<bar> div 10000" by simp
    from show_nat_hd [OF this]
    obtain c r where cr: "show_nat (\<bar>d\<bar> div 10000) = c # r" "is_digit c"
      by blast
    then have c: "c \<noteq> CHR ''-''" "c \<noteq> CHR ''+''" by (auto simp: is_digit_def)
    obtain r' where b: "body = c # r'" using cr by (simp add: body_def)
    have "Decimal_new (c # r') = Decimal_unsigned (c # r')"
      using c by (simp add: Decimal_new_def)
    then have "Decimal_new body = Decimal_unsigned body" by (simp only: b)
    then show ?thesis using False u by (simp add: ts)
  qed
qed


section \<open>Appending to the ledger\<close>


lemma findUnique_append:
  "findUnique_accountId_reference (es @ fs) a r =
     (case findUnique_accountId_reference es a r of
        Some x \<Rightarrow> Some x
      | None \<Rightarrow> findUnique_accountId_reference fs a r)"
  unfolding findUnique_accountId_reference_def
  by (induction es) auto

lemma findUnique_Cons:
  "findUnique_accountId_reference (e # es) a r =
     (if accountId e = a \<and> reference e = r then Some e
      else findUnique_accountId_reference es a r)"
  by (simp add: findUnique_accountId_reference_def)

lemma findUnique_Nil: "findUnique_accountId_reference [] a r = None"
  by (simp add: findUnique_accountId_reference_def)

lemma appendEntry_fresh_success:
  assumes fresh: "findUnique_accountId_reference (ledgerEntry s) (p_accountId p) (p_reference p) = None"
    and amt: "Decimal_new (amountStr_of (p_amount p)) = Some a"
    and ok: "case walletBalanceCache s (p_accountId p) of
               None \<Rightarrow> p_entryType p = CREDIT
             | Some c \<Rightarrow> 0 \<le> c_balance c + (if p_entryType p = CREDIT then a else - a)"
  shows "\<exists>e. appendEntry p s =
            (s\<lparr>ledgerEntry := ledgerEntry s @ [e],
               walletBalanceCache := (walletBalanceCache s)
                 (p_accountId p \<mapsto>
                    (case walletBalanceCache s (p_accountId p) of
                       None \<Rightarrow> \<lparr>c_accountId = p_accountId p, c_balance = a, c_currency = ''NGN'',
                                c_lastEntrySeq = walletSeq e\<rparr>
                     | Some c \<Rightarrow> c\<lparr>c_balance := c_balance c + (if p_entryType p = CREDIT then a else - a),
                                   c_lastEntrySeq := walletSeq e\<rparr>))\<rparr>,
             Inr (toResult e))
         \<and> id e = length (ledgerEntry s) \<and> accountId e = p_accountId p
         \<and> reference e = p_reference p \<and> orderId e = p_orderId p
         \<and> entryType e = p_entryType p \<and> amount e = a \<and> description e = p_description p
         \<and> walletSeq e = (case findFirst_last (ledgerEntry s) (p_accountId p) of
                            None \<Rightarrow> 0 | Some l \<Rightarrow> walletSeq l) + 1
         \<and> prevHash e = map_option entryHash (findFirst_last (ledgerEntry s) (p_accountId p))
         \<and> entryHash e = computeEntryHash (prevHash e) (accountId e) (walletSeq e) (reference e)
                            (entryType_string (entryType e)) (amountStr_of (p_amount p))
                            (description e)"
proof -
  define e where "e =
    \<lparr>id = length (ledgerEntry s), accountId = p_accountId p,
     walletSeq = (case findFirst_last (ledgerEntry s) (p_accountId p) of
                    None \<Rightarrow> 0 | Some l \<Rightarrow> walletSeq l) + 1,
     reference = p_reference p, orderId = p_orderId p, entryType = p_entryType p,
     amount = a, description = p_description p,
     prevHash = map_option entryHash (findFirst_last (ledgerEntry s) (p_accountId p)),
     entryHash = computeEntryHash
                   (map_option entryHash (findFirst_last (ledgerEntry s) (p_accountId p)))
                   (p_accountId p)
                   ((case findFirst_last (ledgerEntry s) (p_accountId p) of
                       None \<Rightarrow> 0 | Some l \<Rightarrow> walletSeq l) + 1)
                   (p_reference p) (entryType_string (p_entryType p))
                   (amountStr_of (p_amount p)) (p_description p)\<rparr>"
  have run: "appendEntry p s =
            (s\<lparr>ledgerEntry := ledgerEntry s @ [e],
               walletBalanceCache := (walletBalanceCache s)
                 (p_accountId p \<mapsto>
                    (case walletBalanceCache s (p_accountId p) of
                       None \<Rightarrow> \<lparr>c_accountId = p_accountId p, c_balance = a, c_currency = ''NGN'',
                                c_lastEntrySeq = walletSeq e\<rparr>
                     | Some c \<Rightarrow> c\<lparr>c_balance := c_balance c + (if p_entryType p = CREDIT then a else - a),
                                   c_lastEntrySeq := walletSeq e\<rparr>))\<rparr>,
             Inr (toResult e))"
  proof (cases "walletBalanceCache s (p_accountId p)")
    case None
    with ok have "p_entryType p = CREDIT" by simp
    with None fresh amt show ?thesis
      by (simp add: appendEntry_def Let_def e_def)
  next
    case (Some c)
    with ok have "\<not> c_balance c + (if p_entryType p = CREDIT then a else - a) < 0" by simp
    with Some fresh amt show ?thesis
      by (simp add: appendEntry_def Let_def e_def)
  qed
  have props: "id e = length (ledgerEntry s) \<and> accountId e = p_accountId p
         \<and> reference e = p_reference p \<and> orderId e = p_orderId p
         \<and> entryType e = p_entryType p \<and> amount e = a \<and> description e = p_description p
         \<and> walletSeq e = (case findFirst_last (ledgerEntry s) (p_accountId p) of
                            None \<Rightarrow> 0 | Some l \<Rightarrow> walletSeq l) + 1
         \<and> prevHash e = map_option entryHash (findFirst_last (ledgerEntry s) (p_accountId p))
         \<and> entryHash e = computeEntryHash (prevHash e) (accountId e) (walletSeq e) (reference e)
                            (entryType_string (entryType e)) (amountStr_of (p_amount p))
                            (description e)"
    by (simp add: e_def)
  from run props show ?thesis by blast
qed

lemma appendEntry_fresh_failure:
  assumes fresh: "findUnique_accountId_reference (ledgerEntry s) (p_accountId p) (p_reference p) = None"
    and amt: "Decimal_new (amountStr_of (p_amount p)) = Some a"
    and bad: "case walletBalanceCache s (p_accountId p) of
               None \<Rightarrow> p_entryType p = DEBIT
             | Some c \<Rightarrow> c_balance c + (if p_entryType p = CREDIT then a else - a) < 0"
  shows "\<exists>s1. length (ledgerEntry s1) = Suc (length (ledgerEntry s)) \<and>
           appendEntry p s =
            (s1, Inl (case walletBalanceCache s (p_accountId p) of
                        None \<Rightarrow> DEBIT_ON_NON_EXISTENT_WALLET (p_accountId p)
                      | Some c \<Rightarrow> INSUFFICIENT_BALANCE (p_accountId p) (c_balance c)
                                    (amountStr_of (p_amount p))))"
proof (cases "walletBalanceCache s (p_accountId p)")
  case None
  with bad have "p_entryType p = DEBIT" by simp
  with None fresh amt show ?thesis
    by (simp add: appendEntry_def Let_def)
next
  case (Some c)
  with bad have "c_balance c + (if p_entryType p = CREDIT then a else - a) < 0" by simp
  with Some fresh amt show ?thesis
    by (simp add: appendEntry_def Let_def)
qed



text \<open>
  C4. A DEBIT with a fresh reference, run in a transaction: on an account whose balance
  row holds balance b it succeeds exactly when the amount is at most b, appending one
  entry and leaving balance b - amount (0 when the amount is b); when the amount exceeds
  b it fails with INSUFFICIENT_BALANCE and the store is as before (no entry, same balance
  rows); on an account without balance row it fails with DEBIT_ON_NON_EXISTENT_WALLET and
  the store is as before.
\<close>

theorem appendEntry_debit:
  assumes fresh: "findUnique_accountId_reference (ledgerEntry s) (p_accountId p) (p_reference p) = None"
    and debit: "p_entryType p = DEBIT"
    and amt: "Decimal_new (amountStr_of (p_amount p)) = Some a"
  shows "case walletBalanceCache s (p_accountId p) of
           None \<Rightarrow>
             transaction (appendEntry p) s = (s, Inl (DEBIT_ON_NON_EXISTENT_WALLET (p_accountId p)))
         | Some c \<Rightarrow>
             if a \<le> c_balance c
             then \<exists>e. transaction (appendEntry p) s =
                      (s\<lparr>ledgerEntry := ledgerEntry s @ [e],
                         walletBalanceCache := (walletBalanceCache s)
                           (p_accountId p \<mapsto> c\<lparr>c_balance := c_balance c - a,
                                                 c_lastEntrySeq := walletSeq e\<rparr>)\<rparr>,
                       Inr (toResult e))
                    \<and> accountId e = p_accountId p \<and> reference e = p_reference p
                    \<and> entryType e = DEBIT \<and> amount e = a
             else transaction (appendEntry p) s =
                    (s, Inl (INSUFFICIENT_BALANCE (p_accountId p) (c_balance c)
                               (amountStr_of (p_amount p))))"
proof (cases "walletBalanceCache s (p_accountId p)")
  case None
  then show ?thesis
    using appendEntry_fresh_failure [OF fresh amt] debit
    by (auto simp: transaction_def)
next
  case (Some c)
  show ?thesis
  proof (cases "a \<le> c_balance c")
    case True
    have ok: "case walletBalanceCache s (p_accountId p) of
               None \<Rightarrow> p_entryType p = CREDIT
             | Some c \<Rightarrow> 0 \<le> c_balance c + (if p_entryType p = CREDIT then a else - a)"
      using Some True debit by simp
    from appendEntry_fresh_success [OF fresh amt ok]
    obtain e where run: "appendEntry p s =
            (s\<lparr>ledgerEntry := ledgerEntry s @ [e],
               walletBalanceCache := (walletBalanceCache s)
                 (p_accountId p \<mapsto>
                    (case walletBalanceCache s (p_accountId p) of
                       None \<Rightarrow> \<lparr>c_accountId = p_accountId p, c_balance = a, c_currency = ''NGN'',
                                c_lastEntrySeq = walletSeq e\<rparr>
                     | Some c \<Rightarrow> c\<lparr>c_balance := c_balance c + (if p_entryType p = CREDIT then a else - a),
                                   c_lastEntrySeq := walletSeq e\<rparr>))\<rparr>,
             Inr (toResult e))"
      and props: "accountId e = p_accountId p" "reference e = p_reference p"
        "entryType e = p_entryType p" "amount e = a"
      by blast
    have "transaction (appendEntry p) s =
            (s\<lparr>ledgerEntry := ledgerEntry s @ [e],
               walletBalanceCache := (walletBalanceCache s)
                 (p_accountId p \<mapsto> c\<lparr>c_balance := c_balance c - a,
                                       c_lastEntrySeq := walletSeq e\<rparr>)\<rparr>,
             Inr (toResult e))
          \<and> accountId e = p_accountId p \<and> reference e = p_reference p
          \<and> entryType e = DEBIT \<and> amount e = a"
      using run props Some debit by (simp add: transaction_def)
    then have "\<exists>e. transaction (appendEntry p) s =
            (s\<lparr>ledgerEntry := ledgerEntry s @ [e],
               walletBalanceCache := (walletBalanceCache s)
                 (p_accountId p \<mapsto> c\<lparr>c_balance := c_balance c - a,
                                       c_lastEntrySeq := walletSeq e\<rparr>)\<rparr>,
             Inr (toResult e))
          \<and> accountId e = p_accountId p \<and> reference e = p_reference p
          \<and> entryType e = DEBIT \<and> amount e = a"
      by blast
    then show ?thesis using Some True by simp
  next
    case False
    then show ?thesis
      using appendEntry_fresh_failure [OF fresh amt] Some debit
      by (auto simp: transaction_def)
  qed
qed

theorem appendEntry_debit_witness:
  "c_balance (the (walletBalanceCache (fst (transaction (appendEntry
      \<lparr>p_reference = ''R2'', p_orderId = None, p_accountId = ''W'', p_entryType = DEBIT,
       p_amount = AmountDecimal 10000000, p_description = None\<rparr>) ledger_example)) ''W'')) = 0
   \<and> transaction (appendEntry
      \<lparr>p_reference = ''R2'', p_orderId = None, p_accountId = ''W'', p_entryType = DEBIT,
       p_amount = AmountDecimal 10000001, p_description = None\<rparr>) ledger_example
      = (ledger_example, Inl (INSUFFICIENT_BALANCE ''W'' 10000000 ''1000.0001''))
   \<and> transaction (appendEntry
      \<lparr>p_reference = ''R2'', p_orderId = None, p_accountId = ''V'', p_entryType = DEBIT,
       p_amount = AmountDecimal 1, p_description = None\<rparr>) ledger_example
      = (ledger_example, Inl (DEBIT_ON_NON_EXISTENT_WALLET ''V''))"
proof -
  have ts: "Decimal_toString 10000001 = ''1000.0001''" by code_simp
  have dn: "Decimal_new ''1000.0001'' = Some 10000001"
    using Decimal_new_toString [of 10000001] by (simp only: ts)
  show ?thesis
    using appendEntry_debit
      [of ledger_example
        "\<lparr>p_reference = ''R2'', p_orderId = None, p_accountId = ''W'', p_entryType = DEBIT,
          p_amount = AmountDecimal 10000000, p_description = None\<rparr>" 10000000]
      appendEntry_debit
      [of ledger_example
        "\<lparr>p_reference = ''R2'', p_orderId = None, p_accountId = ''W'', p_entryType = DEBIT,
          p_amount = AmountDecimal 10000001, p_description = None\<rparr>" 10000001]
      appendEntry_debit
      [of ledger_example
        "\<lparr>p_reference = ''R2'', p_orderId = None, p_accountId = ''V'', p_entryType = DEBIT,
          p_amount = AmountDecimal 1, p_description = None\<rparr>" 1]
    by (auto simp: ledger_example_def empty_db_def findUnique_accountId_reference_def
        amountStr_of_def Decimal_new_toString ts dn)
qed

section \<open>Settlement\<close>

lemma max_walletSeq_ge:
  "e \<in> set es \<Longrightarrow> \<exists>l. max_walletSeq es = Some l \<and> walletSeq e \<le> walletSeq l"
proof (induction es)
  case Nil
  then show ?case by simp
next
  case (Cons x xs)
  show ?case
  proof (cases "e \<in> set xs")
    case True
    with Cons.IH obtain l where "max_walletSeq xs = Some l" "walletSeq e \<le> walletSeq l" by blast
    then show ?thesis by auto
  next
    case False
    with Cons.prems have "e = x" by simp
    then show ?thesis by (cases "max_walletSeq xs") auto
  qed
qed

lemma findFirst_last_ge:
  "e \<in> set es \<Longrightarrow> accountId e = a \<Longrightarrow>
     \<exists>l. findFirst_last es a = Some l \<and> walletSeq e \<le> walletSeq l"
  unfolding findFirst_last_def by (rule max_walletSeq_ge) simp

lemma find_settled:
  "find (\<lambda>i. pi_id i = k) (map (\<lambda>i. if pi_id i = k then i\<lparr>pi_status := SETTLED\<rparr> else i) xs)
     = map_option (\<lambda>i. i\<lparr>pi_status := SETTLED\<rparr>) (find (\<lambda>i. pi_id i = k) xs)"
  by (induction xs) auto

lemma accounts_differ: "MARKETING_WALLET \<noteq> PLATFORM_ESCROW"
  by (simp add: MARKETING_WALLET_def PLATFORM_ESCROW_def)

text \<open>
  A successful append with a fresh reference, told through the tables of the resulting
  store; then the three courses of a settlement: without discount, with a funded
  discount, with a discount that the marketing wallet cannot pay.
\<close>

lemma appendEntry_fresh_projections:
  assumes fresh: "findUnique_accountId_reference (ledgerEntry s) (p_accountId p) (p_reference p) = None"
    and amt: "p_amount p = AmountDecimal a"
    and ok: "case walletBalanceCache s (p_accountId p) of
               None \<Rightarrow> p_entryType p = CREDIT
             | Some c \<Rightarrow> 0 \<le> c_balance c + (if p_entryType p = CREDIT then a else - a)"
  shows "\<exists>e s1. appendEntry p s = (s1, Inr (toResult e))
         \<and> ledgerEntry s1 = ledgerEntry s @ [e]
         \<and> (\<forall>k. k \<noteq> p_accountId p \<longrightarrow> walletBalanceCache s1 k = walletBalanceCache s k)
         \<and> map_option c_balance (walletBalanceCache s1 (p_accountId p))
              = Some ((case walletBalanceCache s (p_accountId p) of
                         None \<Rightarrow> 0 | Some c \<Rightarrow> c_balance c)
                      + (if p_entryType p = CREDIT then a else - a))
         \<and> paymentIntent s1 = paymentIntent s \<and> webhookInbox s1 = webhookInbox s
         \<and> accountId e = p_accountId p \<and> reference e = p_reference p
         \<and> entryType e = p_entryType p \<and> amount e = a
         \<and> walletSeq e = (case findFirst_last (ledgerEntry s) (p_accountId p) of
                            None \<Rightarrow> 0 | Some l \<Rightarrow> walletSeq l) + 1"
proof -
  have amt': "Decimal_new (amountStr_of (p_amount p)) = Some a"
    by (simp add: amt amountStr_of_def Decimal_new_toString)
  from appendEntry_fresh_success [OF fresh amt' ok]
  obtain e where run: "appendEntry p s =
            (s\<lparr>ledgerEntry := ledgerEntry s @ [e],
               walletBalanceCache := (walletBalanceCache s)
                 (p_accountId p \<mapsto>
                    (case walletBalanceCache s (p_accountId p) of
                       None \<Rightarrow> \<lparr>c_accountId = p_accountId p, c_balance = a, c_currency = ''NGN'',
                                c_lastEntrySeq = walletSeq e\<rparr>
                     | Some c \<Rightarrow> c\<lparr>c_balance := c_balance c + (if p_entryType p = CREDIT then a else - a),
                                   c_lastEntrySeq := walletSeq e\<rparr>))\<rparr>,
             Inr (toResult e))"
    and props: "accountId e = p_accountId p" "reference e = p_reference p"
      "entryType e = p_entryType p" "amount e = a"
      "walletSeq e = (case findFirst_last (ledgerEntry s) (p_accountId p) of
                            None \<Rightarrow> 0 | Some l \<Rightarrow> walletSeq l) + 1"
    by blast
  have credit: "walletBalanceCache s (p_accountId p) = None \<Longrightarrow> p_entryType p = CREDIT"
    using ok by simp
  show ?thesis
    by (rule exI [of _ e], rule exI, rule conjI, rule run)
       (auto simp: props credit split: option.splits)
qed

lemma settle_no_discount:
  assumes intent: "find (\<lambda>i. pi_id i = intentId) (paymentIntent s) = Some intent"
    and st: "pi_status intent = CONFIRMING"
    and fresh1: "findUnique_accountId_reference (ledgerEntry s) PLATFORM_ESCROW (pi_reference intent) = None"
    and amt: "0 \<le> pi_amount intent"
    and esc: "case walletBalanceCache s PLATFORM_ESCROW of None \<Rightarrow> True | Some c \<Rightarrow> 0 \<le> c_balance c"
    and disc: "\<not> 0 < pi_discountAmount intent"
  shows "\<exists>s' res e1. settlePayment intentId s = (s', Inr res)
       \<and> ledgerEntry s' = ledgerEntry s @ [e1]
       \<and> sr_ledgerEntries res = [toResult e1]
       \<and> accountId e1 = PLATFORM_ESCROW \<and> entryType e1 = CREDIT
       \<and> amount e1 = pi_amount intent \<and> reference e1 = pi_reference intent
       \<and> find (\<lambda>i. pi_id i = intentId) (paymentIntent s') = Some (intent\<lparr>pi_status := SETTLED\<rparr>)"
proof -
  define p1 where "p1 =
    \<lparr>p_reference = pi_reference intent, p_orderId = Some (pi_orderId intent),
     p_accountId = PLATFORM_ESCROW, p_entryType = CREDIT,
     p_amount = AmountDecimal (pi_amount intent),
     p_description = Some (''Payment received for order '' @ pi_orderId intent)\<rparr>"
  have f1: "findUnique_accountId_reference (ledgerEntry s) (p_accountId p1) (p_reference p1) = None"
    using fresh1 by (simp add: p1_def)
  have a1: "p_amount p1 = AmountDecimal (pi_amount intent)" by (simp add: p1_def)
  have ok1: "case walletBalanceCache s (p_accountId p1) of
               None \<Rightarrow> p_entryType p1 = CREDIT
             | Some c \<Rightarrow> 0 \<le> c_balance c + (if p_entryType p1 = CREDIT then pi_amount intent
                                              else - pi_amount intent)"
    using esc amt by (simp add: p1_def split: option.splits)
  from appendEntry_fresh_projections [OF f1 a1 ok1]
  obtain e1 s1 where run1: "appendEntry p1 s = (s1, Inr (toResult e1))"
    and l1: "ledgerEntry s1 = ledgerEntry s @ [e1]"
    and i1: "paymentIntent s1 = paymentIntent s"
    and r1: "accountId e1 = p_accountId p1 \<and> reference e1 = p_reference p1
              \<and> entryType e1 = p_entryType p1 \<and> amount e1 = pi_amount intent"
    by blast
  from r1 have e1: "accountId e1 = PLATFORM_ESCROW" "reference e1 = pi_reference intent"
      "entryType e1 = CREDIT" "amount e1 = pi_amount intent"
    by (simp_all add: p1_def)
  have "settlePayment intentId s =
          (s1\<lparr>paymentIntent := map (\<lambda>i. if pi_id i = intentId then i\<lparr>pi_status := SETTLED\<rparr> else i)
                                   (paymentIntent s1)\<rparr>,
           Inr \<lparr>sr_success = True, sr_paymentIntentId = intentId,
                sr_reference = pi_reference intent, sr_ledgerEntries = [toResult e1],
                sr_message = ''Payment settled successfully''\<rparr>)"
    using intent st disc run1 [unfolded p1_def]
    by (simp add: settlePayment_def transaction_def settlePayment_callback_def)
  then show ?thesis
    using l1 i1 e1 intent by (simp add: find_settled)
qed

lemma settle_with_discount:
  assumes intent: "find (\<lambda>i. pi_id i = intentId) (paymentIntent s) = Some intent"
    and st: "pi_status intent = CONFIRMING"
    and fresh1: "findUnique_accountId_reference (ledgerEntry s) PLATFORM_ESCROW (pi_reference intent) = None"
    and fresh2: "findUnique_accountId_reference (ledgerEntry s) MARKETING_WALLET
                   (pi_reference intent @ ''_DISC'') = None"
    and fresh3: "findUnique_accountId_reference (ledgerEntry s) PLATFORM_ESCROW
                   (pi_reference intent @ ''_DISC_ESCROW'') = None"
    and amt: "0 \<le> pi_amount intent"
    and esc: "case walletBalanceCache s PLATFORM_ESCROW of None \<Rightarrow> True | Some c \<Rightarrow> 0 \<le> c_balance c"
    and disc: "0 < pi_discountAmount intent"
    and mkt: "walletBalanceCache s MARKETING_WALLET = Some m" "pi_discountAmount intent \<le> c_balance m"
  shows "\<exists>s' res e1 e2 e3. settlePayment intentId s = (s', Inr res)
       \<and> ledgerEntry s' = ledgerEntry s @ [e1, e2, e3]
       \<and> sr_ledgerEntries res = [toResult e1, toResult e2, toResult e3]
       \<and> accountId e1 = PLATFORM_ESCROW \<and> entryType e1 = CREDIT
       \<and> amount e1 = pi_amount intent \<and> reference e1 = pi_reference intent
       \<and> accountId e2 = MARKETING_WALLET \<and> entryType e2 = DEBIT
       \<and> amount e2 = pi_discountAmount intent \<and> reference e2 = pi_reference intent @ ''_DISC''
       \<and> accountId e3 = PLATFORM_ESCROW \<and> entryType e3 = CREDIT
       \<and> amount e3 = pi_discountAmount intent
       \<and> reference e3 = pi_reference intent @ ''_DISC_ESCROW''
       \<and> walletSeq e1 < walletSeq e3
       \<and> map_option c_balance (walletBalanceCache s' MARKETING_WALLET)
            = Some (c_balance m - pi_discountAmount intent)
       \<and> find (\<lambda>i. pi_id i = intentId) (paymentIntent s') = Some (intent\<lparr>pi_status := SETTLED\<rparr>)"
proof -
  define p1 where "p1 =
    \<lparr>p_reference = pi_reference intent, p_orderId = Some (pi_orderId intent),
     p_accountId = PLATFORM_ESCROW, p_entryType = CREDIT,
     p_amount = AmountDecimal (pi_amount intent),
     p_description = Some (''Payment received for order '' @ pi_orderId intent)\<rparr>"
  define p2 where "p2 =
    \<lparr>p_reference = pi_reference intent @ ''_DISC'', p_orderId = Some (pi_orderId intent),
     p_accountId = MARKETING_WALLET, p_entryType = DEBIT,
     p_amount = AmountDecimal (pi_discountAmount intent),
     p_description = Some (''Discount subsidy for order '' @ pi_orderId intent @
                           '' ('' @ discountCode_text (pi_discountCode intent) @ '')'')\<rparr>"
  define p3 where "p3 =
    \<lparr>p_reference = pi_reference intent @ ''_DISC_ESCROW'', p_orderId = Some (pi_orderId intent),
     p_accountId = PLATFORM_ESCROW, p_entryType = CREDIT,
     p_amount = AmountDecimal (pi_discountAmount intent),
     p_description = Some (''Discount subsidy credit for order '' @ pi_orderId intent)\<rparr>"
  \<comment> \<open>primary credit\<close>
  have f1: "findUnique_accountId_reference (ledgerEntry s) (p_accountId p1) (p_reference p1) = None"
    using fresh1 by (simp add: p1_def)
  have a1: "p_amount p1 = AmountDecimal (pi_amount intent)" by (simp add: p1_def)
  have ok1: "case walletBalanceCache s (p_accountId p1) of
               None \<Rightarrow> p_entryType p1 = CREDIT
             | Some c \<Rightarrow> 0 \<le> c_balance c + (if p_entryType p1 = CREDIT then pi_amount intent
                                              else - pi_amount intent)"
    using esc amt by (simp add: p1_def split: option.splits)
  from appendEntry_fresh_projections [OF f1 a1 ok1]
  obtain e1 s1 where run1: "appendEntry p1 s = (s1, Inr (toResult e1))"
    and l1: "ledgerEntry s1 = ledgerEntry s @ [e1]"
    and o1: "\<forall>k. k \<noteq> p_accountId p1 \<longrightarrow> walletBalanceCache s1 k = walletBalanceCache s k"
    and b1: "map_option c_balance (walletBalanceCache s1 (p_accountId p1))
              = Some ((case walletBalanceCache s (p_accountId p1) of
                         None \<Rightarrow> 0 | Some c \<Rightarrow> c_balance c)
                      + (if p_entryType p1 = CREDIT then pi_amount intent else - pi_amount intent))"
    and i1: "paymentIntent s1 = paymentIntent s"
    and r1: "accountId e1 = p_accountId p1 \<and> reference e1 = p_reference p1
              \<and> entryType e1 = p_entryType p1 \<and> amount e1 = pi_amount intent"
    by blast
  from r1 have e1: "accountId e1 = PLATFORM_ESCROW" "reference e1 = pi_reference intent"
      "entryType e1 = CREDIT" "amount e1 = pi_amount intent"
    by (simp_all add: p1_def)
  \<comment> \<open>marketing debit\<close>
  have f2: "findUnique_accountId_reference (ledgerEntry s1) (p_accountId p2) (p_reference p2) = None"
    using fresh2 e1 accounts_differ by (simp add: p2_def l1 findUnique_append findUnique_Cons findUnique_Nil)
  have a2: "p_amount p2 = AmountDecimal (pi_discountAmount intent)" by (simp add: p2_def)
  have m1: "walletBalanceCache s1 MARKETING_WALLET = Some m"
    using mkt accounts_differ o1 by (simp add: p1_def)
  have ok2: "case walletBalanceCache s1 (p_accountId p2) of
               None \<Rightarrow> p_entryType p2 = CREDIT
             | Some c \<Rightarrow> 0 \<le> c_balance c + (if p_entryType p2 = CREDIT then pi_discountAmount intent
                                              else - pi_discountAmount intent)"
    using mkt m1 by (simp add: p2_def)
  from appendEntry_fresh_projections [OF f2 a2 ok2]
  obtain e2 s2 where run2: "appendEntry p2 s1 = (s2, Inr (toResult e2))"
    and l2: "ledgerEntry s2 = ledgerEntry s1 @ [e2]"
    and o2: "\<forall>k. k \<noteq> p_accountId p2 \<longrightarrow> walletBalanceCache s2 k = walletBalanceCache s1 k"
    and b2: "map_option c_balance (walletBalanceCache s2 (p_accountId p2))
              = Some ((case walletBalanceCache s1 (p_accountId p2) of
                         None \<Rightarrow> 0 | Some c \<Rightarrow> c_balance c)
                      + (if p_entryType p2 = CREDIT then pi_discountAmount intent
                         else - pi_discountAmount intent))"
    and i2: "paymentIntent s2 = paymentIntent s1"
    and r2: "accountId e2 = p_accountId p2 \<and> reference e2 = p_reference p2
              \<and> entryType e2 = p_entryType p2 \<and> amount e2 = pi_discountAmount intent"
    by blast
  from r2 have e2: "accountId e2 = MARKETING_WALLET" "reference e2 = pi_reference intent @ ''_DISC''"
      "entryType e2 = DEBIT" "amount e2 = pi_discountAmount intent"
    by (simp_all add: p2_def)
  from b2 have w2: "map_option c_balance (walletBalanceCache s2 MARKETING_WALLET)
                      = Some (c_balance m - pi_discountAmount intent)"
    by (simp add: p2_def m1)
  \<comment> \<open>subsidy credit\<close>
  have f3: "findUnique_accountId_reference (ledgerEntry s2) (p_accountId p3) (p_reference p3) = None"
    using fresh3 e1 e2 accounts_differ by (simp add: p3_def l1 l2 findUnique_append findUnique_Cons findUnique_Nil)
  have a3: "p_amount p3 = AmountDecimal (pi_discountAmount intent)" by (simp add: p3_def)
  have "walletBalanceCache s2 PLATFORM_ESCROW = walletBalanceCache s1 PLATFORM_ESCROW"
    using o2 accounts_differ by (simp add: p2_def)
  moreover have "\<exists>c. walletBalanceCache s1 PLATFORM_ESCROW = Some c \<and> 0 \<le> c_balance c"
    using b1 esc amt by (auto simp: p1_def split: option.splits)
  ultimately obtain c1 where c1: "walletBalanceCache s2 PLATFORM_ESCROW = Some c1" "0 \<le> c_balance c1"
    by auto
  have ok3: "case walletBalanceCache s2 (p_accountId p3) of
               None \<Rightarrow> p_entryType p3 = CREDIT
             | Some c \<Rightarrow> 0 \<le> c_balance c + (if p_entryType p3 = CREDIT then pi_discountAmount intent
                                              else - pi_discountAmount intent)"
    using c1 disc by (simp add: p3_def)
  from appendEntry_fresh_projections [OF f3 a3 ok3]
  obtain e3 s3 where run3: "appendEntry p3 s2 = (s3, Inr (toResult e3))"
    and l3: "ledgerEntry s3 = ledgerEntry s2 @ [e3]"
    and o3: "\<forall>k. k \<noteq> p_accountId p3 \<longrightarrow> walletBalanceCache s3 k = walletBalanceCache s2 k"
    and i3: "paymentIntent s3 = paymentIntent s2"
    and r3: "accountId e3 = p_accountId p3 \<and> reference e3 = p_reference p3
              \<and> entryType e3 = p_entryType p3 \<and> amount e3 = pi_discountAmount intent"
    and q3raw: "walletSeq e3 = (case findFirst_last (ledgerEntry s2) (p_accountId p3) of
                               None \<Rightarrow> 0 | Some l \<Rightarrow> walletSeq l) + 1"
    by blast
  from r3 have e3: "accountId e3 = PLATFORM_ESCROW" "reference e3 = pi_reference intent @ ''_DISC_ESCROW''"
      "entryType e3 = CREDIT" "amount e3 = pi_discountAmount intent"
    by (simp_all add: p3_def)
  from q3raw have q3: "walletSeq e3 = (case findFirst_last (ledgerEntry s2) PLATFORM_ESCROW of
                               None \<Rightarrow> 0 | Some l \<Rightarrow> walletSeq l) + 1"
    by (simp add: p3_def)
  \<comment> \<open>the primary credit precedes the subsidy credit\<close>
  have "e1 \<in> set (ledgerEntry s2)" by (simp add: l1 l2)
  from findFirst_last_ge [OF this e1(1)]
  obtain l where "findFirst_last (ledgerEntry s2) PLATFORM_ESCROW = Some l" "walletSeq e1 \<le> walletSeq l"
    by blast
  then have order: "walletSeq e1 < walletSeq e3" by (simp add: q3)
  have bal: "map_option c_balance (walletBalanceCache s3 MARKETING_WALLET)
               = Some (c_balance m - pi_discountAmount intent)"
    using accounts_differ o3 w2 by (simp add: p3_def)
  have "settlePayment intentId s =
          (s3\<lparr>paymentIntent := map (\<lambda>i. if pi_id i = intentId then i\<lparr>pi_status := SETTLED\<rparr> else i)
                                   (paymentIntent s3)\<rparr>,
           Inr \<lparr>sr_success = True, sr_paymentIntentId = intentId,
                sr_reference = pi_reference intent,
                sr_ledgerEntries = [toResult e1, toResult e2, toResult e3],
                sr_message = ''Payment settled successfully''\<rparr>)"
    using intent st disc run1 [unfolded p1_def] run2 [unfolded p2_def] run3 [unfolded p3_def]
    by (simp add: settlePayment_def transaction_def settlePayment_callback_def Let_def)
  then show ?thesis
    using l1 l2 l3 i1 i2 i3 e1 e2 e3 order bal intent by (simp add: find_settled)
qed

lemma settle_insufficient_marketing:
  assumes intent: "find (\<lambda>i. pi_id i = intentId) (paymentIntent s) = Some intent"
    and st: "pi_status intent = CONFIRMING"
    and fresh1: "findUnique_accountId_reference (ledgerEntry s) PLATFORM_ESCROW (pi_reference intent) = None"
    and fresh2: "findUnique_accountId_reference (ledgerEntry s) MARKETING_WALLET
                   (pi_reference intent @ ''_DISC'') = None"
    and amt: "0 \<le> pi_amount intent"
    and esc: "case walletBalanceCache s PLATFORM_ESCROW of None \<Rightarrow> True | Some c \<Rightarrow> 0 \<le> c_balance c"
    and disc: "0 < pi_discountAmount intent"
    and mkt: "walletBalanceCache s MARKETING_WALLET = Some m" "c_balance m < pi_discountAmount intent"
  shows "settlePayment intentId s =
           (s, Inl (INSUFFICIENT_BALANCE MARKETING_WALLET (c_balance m)
                      (Decimal_toString (pi_discountAmount intent))))
       \<and> (\<exists>tx. settlePayment_callback intentId s =
                  (tx, Inl (INSUFFICIENT_BALANCE MARKETING_WALLET (c_balance m)
                              (Decimal_toString (pi_discountAmount intent))))
              \<and> length (ledgerEntry tx) = length (ledgerEntry s) + 2)"
proof -
  define p1 where "p1 =
    \<lparr>p_reference = pi_reference intent, p_orderId = Some (pi_orderId intent),
     p_accountId = PLATFORM_ESCROW, p_entryType = CREDIT,
     p_amount = AmountDecimal (pi_amount intent),
     p_description = Some (''Payment received for order '' @ pi_orderId intent)\<rparr>"
  define p2 where "p2 =
    \<lparr>p_reference = pi_reference intent @ ''_DISC'', p_orderId = Some (pi_orderId intent),
     p_accountId = MARKETING_WALLET, p_entryType = DEBIT,
     p_amount = AmountDecimal (pi_discountAmount intent),
     p_description = Some (''Discount subsidy for order '' @ pi_orderId intent @
                           '' ('' @ discountCode_text (pi_discountCode intent) @ '')'')\<rparr>"
  have f1: "findUnique_accountId_reference (ledgerEntry s) (p_accountId p1) (p_reference p1) = None"
    using fresh1 by (simp add: p1_def)
  have a1: "p_amount p1 = AmountDecimal (pi_amount intent)" by (simp add: p1_def)
  have ok1: "case walletBalanceCache s (p_accountId p1) of
               None \<Rightarrow> p_entryType p1 = CREDIT
             | Some c \<Rightarrow> 0 \<le> c_balance c + (if p_entryType p1 = CREDIT then pi_amount intent
                                              else - pi_amount intent)"
    using esc amt by (simp add: p1_def split: option.splits)
  from appendEntry_fresh_projections [OF f1 a1 ok1]
  obtain e1 s1 where run1: "appendEntry p1 s = (s1, Inr (toResult e1))"
    and l1: "ledgerEntry s1 = ledgerEntry s @ [e1]"
    and o1: "\<forall>k. k \<noteq> p_accountId p1 \<longrightarrow> walletBalanceCache s1 k = walletBalanceCache s k"
    and r1: "accountId e1 = p_accountId p1 \<and> reference e1 = p_reference p1
              \<and> entryType e1 = p_entryType p1 \<and> amount e1 = pi_amount intent"
    by blast
  from r1 have e1: "accountId e1 = PLATFORM_ESCROW" by (simp add: p1_def)
  have f2: "findUnique_accountId_reference (ledgerEntry s1) (p_accountId p2) (p_reference p2) = None"
    using fresh2 e1 accounts_differ
    by (simp add: p2_def l1 findUnique_append findUnique_Cons findUnique_Nil)
  have a2: "Decimal_new (amountStr_of (p_amount p2)) = Some (pi_discountAmount intent)"
    by (simp add: p2_def amountStr_of_def Decimal_new_toString)
  have m1: "walletBalanceCache s1 MARKETING_WALLET = Some m"
    using mkt accounts_differ o1 by (simp add: p1_def)
  have bad2: "case walletBalanceCache s1 (p_accountId p2) of
               None \<Rightarrow> p_entryType p2 = DEBIT
             | Some c \<Rightarrow> c_balance c + (if p_entryType p2 = CREDIT then pi_discountAmount intent
                                         else - pi_discountAmount intent) < 0"
    using mkt m1 by (simp add: p2_def)
  from appendEntry_fresh_failure [OF f2 a2 bad2]
  obtain s2 where l2: "length (ledgerEntry s2) = Suc (length (ledgerEntry s1))"
    and run2raw: "appendEntry p2 s1 =
            (s2, Inl (case walletBalanceCache s1 (p_accountId p2) of
                        None \<Rightarrow> DEBIT_ON_NON_EXISTENT_WALLET (p_accountId p2)
                      | Some c \<Rightarrow> INSUFFICIENT_BALANCE (p_accountId p2) (c_balance c)
                                    (amountStr_of (p_amount p2))))"
    by blast
  have run2: "appendEntry p2 s1 =
            (s2, Inl (INSUFFICIENT_BALANCE MARKETING_WALLET (c_balance m)
                        (Decimal_toString (pi_discountAmount intent))))"
    using run2raw by (simp add: p2_def m1 amountStr_of_def)
  have cb: "settlePayment_callback intentId s =
          (s2, Inl (INSUFFICIENT_BALANCE MARKETING_WALLET (c_balance m)
                       (Decimal_toString (pi_discountAmount intent))))"
    using intent st disc run1 [unfolded p1_def] run2 [unfolded p2_def]
    by (simp add: settlePayment_callback_def Let_def)
  then have "settlePayment intentId s =
           (s, Inl (INSUFFICIENT_BALANCE MARKETING_WALLET (c_balance m)
                      (Decimal_toString (pi_discountAmount intent))))"
    by (simp add: settlePayment_def transaction_def)
  moreover have "length (ledgerEntry s2) = length (ledgerEntry s) + 2"
    using l1 l2 by simp
  ultimately show ?thesis using cb by blast
qed

lemma transaction_rollback: "callback s = (tx, Inl e) \<Longrightarrow> transaction callback s = (s, Inl e)"
  by (simp add: transaction_def)

lemma discount_example_hyps:
  "find (\<lambda>i. pi_id i = 0) (paymentIntent (discount_example f)) = Some intent_O2"
  "pi_status intent_O2 = CONFIRMING"
  "findUnique_accountId_reference (ledgerEntry (discount_example f)) PLATFORM_ESCROW
     (pi_reference intent_O2) = None"
  "findUnique_accountId_reference (ledgerEntry (discount_example f)) MARKETING_WALLET
     (pi_reference intent_O2 @ ''_DISC'') = None"
  "findUnique_accountId_reference (ledgerEntry (discount_example f)) PLATFORM_ESCROW
     (pi_reference intent_O2 @ ''_DISC_ESCROW'') = None"
  "0 \<le> pi_amount intent_O2"
  "case walletBalanceCache (discount_example f) PLATFORM_ESCROW of
     None \<Rightarrow> True | Some c \<Rightarrow> 0 \<le> c_balance c"
  "0 < pi_discountAmount intent_O2"
  "walletBalanceCache (discount_example f) MARKETING_WALLET =
     Some \<lparr>c_accountId = ''MARKETING_WALLET'', c_balance = f, c_currency = ''NGN'',
           c_lastEntrySeq = 1\<rparr>"
  by (simp_all add: discount_example_def intent_O2_def findUnique_accountId_reference_def
      MARKETING_WALLET_def PLATFORM_ESCROW_def)

text \<open>
  C2, with its preconditions made explicit. For a payment intent in status CONFIRMING with a non-negative amount,
  on a store whose escrow balance is not negative and that holds no entry yet for the
  references of the intent, and, when the discount is positive, whose MARKETING_WALLET
  balance row holds at least the discount: settlePayment succeeds and sets the status of
  the intent to SETTLED. With discount 0 it appends exactly one entry, the CREDIT of
  the amount to PLATFORM_ESCROW under the reference of the intent. With a positive
  discount it appends exactly three entries in this order: that primary credit, the DEBIT
  of the discount from MARKETING_WALLET under reference_DISC, the CREDIT of the discount
  to PLATFORM_ESCROW under reference_DISC_ESCROW; the primary credit has a strictly lower
  walletSeq than the subsidy credit, and the MARKETING_WALLET balance decreases by the
  discount. The returned ledgerEntries are the appended entries in that order.
\<close>

theorem settlePayment_emits_one_or_three:
  assumes intent: "find (\<lambda>i. pi_id i = intentId) (paymentIntent s) = Some intent"
    and st: "pi_status intent = CONFIRMING"
    and fresh1: "findUnique_accountId_reference (ledgerEntry s) PLATFORM_ESCROW (pi_reference intent) = None"
    and amt: "0 \<le> pi_amount intent"
    and esc: "case walletBalanceCache s PLATFORM_ESCROW of None \<Rightarrow> True | Some c \<Rightarrow> 0 \<le> c_balance c"
    and disc: "0 < pi_discountAmount intent \<Longrightarrow>
                 findUnique_accountId_reference (ledgerEntry s) MARKETING_WALLET
                   (pi_reference intent @ ''_DISC'') = None
               \<and> findUnique_accountId_reference (ledgerEntry s) PLATFORM_ESCROW
                   (pi_reference intent @ ''_DISC_ESCROW'') = None
               \<and> (\<exists>m. walletBalanceCache s MARKETING_WALLET = Some m
                        \<and> pi_discountAmount intent \<le> c_balance m)"
  shows "\<exists>s' res. settlePayment intentId s = (s', Inr res)
       \<and> find (\<lambda>i. pi_id i = intentId) (paymentIntent s') = Some (intent\<lparr>pi_status := SETTLED\<rparr>)
       \<and> (if 0 < pi_discountAmount intent
          then \<exists>e1 e2 e3.
                 ledgerEntry s' = ledgerEntry s @ [e1, e2, e3]
               \<and> sr_ledgerEntries res = [toResult e1, toResult e2, toResult e3]
               \<and> accountId e1 = PLATFORM_ESCROW \<and> entryType e1 = CREDIT
               \<and> amount e1 = pi_amount intent \<and> reference e1 = pi_reference intent
               \<and> accountId e2 = MARKETING_WALLET \<and> entryType e2 = DEBIT
               \<and> amount e2 = pi_discountAmount intent
               \<and> reference e2 = pi_reference intent @ ''_DISC''
               \<and> accountId e3 = PLATFORM_ESCROW \<and> entryType e3 = CREDIT
               \<and> amount e3 = pi_discountAmount intent
               \<and> reference e3 = pi_reference intent @ ''_DISC_ESCROW''
               \<and> walletSeq e1 < walletSeq e3
               \<and> map_option c_balance (walletBalanceCache s' MARKETING_WALLET)
                    = map_option (\<lambda>m. c_balance m - pi_discountAmount intent)
                        (walletBalanceCache s MARKETING_WALLET)
          else \<exists>e1.
                 ledgerEntry s' = ledgerEntry s @ [e1]
               \<and> sr_ledgerEntries res = [toResult e1]
               \<and> accountId e1 = PLATFORM_ESCROW \<and> entryType e1 = CREDIT
               \<and> amount e1 = pi_amount intent \<and> reference e1 = pi_reference intent)"
proof (cases "0 < pi_discountAmount intent")
  case True
  with disc obtain m where
    fresh2: "findUnique_accountId_reference (ledgerEntry s) MARKETING_WALLET
               (pi_reference intent @ ''_DISC'') = None"
    and fresh3: "findUnique_accountId_reference (ledgerEntry s) PLATFORM_ESCROW
               (pi_reference intent @ ''_DISC_ESCROW'') = None"
    and m: "walletBalanceCache s MARKETING_WALLET = Some m" "pi_discountAmount intent \<le> c_balance m"
    by blast
  from settle_with_discount [OF intent st fresh1 fresh2 fresh3 amt esc True m]
  show ?thesis using True m by auto
next
  case False
  from settle_no_discount [OF intent st fresh1 amt esc False]
  show ?thesis using False by auto
qed

theorem settlePayment_emits_one_or_three_witness:
  "\<exists>s' res. settlePayment 0 (discount_example 10000000000) = (s', Inr res)
     \<and> find (\<lambda>i. pi_id i = 0) (paymentIntent s') = Some (intent_O2\<lparr>pi_status := SETTLED\<rparr>)
     \<and> length (ledgerEntry s') = 4
     \<and> map r_reference (sr_ledgerEntries res)
         = [''PAYMENT_O2'', ''PAYMENT_O2_DISC'', ''PAYMENT_O2_DISC_ESCROW'']
     \<and> map r_amount (sr_ledgerEntries res) = [80000000, 20000000, 20000000]
     \<and> map_option c_balance (walletBalanceCache s' MARKETING_WALLET) = Some 9980000000"
proof -
  have d: "0 < pi_discountAmount intent_O2 \<Longrightarrow>
             findUnique_accountId_reference (ledgerEntry (discount_example 10000000000))
               MARKETING_WALLET (pi_reference intent_O2 @ ''_DISC'') = None
           \<and> findUnique_accountId_reference (ledgerEntry (discount_example 10000000000))
               PLATFORM_ESCROW (pi_reference intent_O2 @ ''_DISC_ESCROW'') = None
           \<and> (\<exists>m. walletBalanceCache (discount_example 10000000000) MARKETING_WALLET = Some m
                    \<and> pi_discountAmount intent_O2 \<le> c_balance m)"
    by (simp add: discount_example_hyps) (simp add: intent_O2_def)
  from settlePayment_emits_one_or_three
    [OF discount_example_hyps(1) discount_example_hyps(2) discount_example_hyps(3)
        discount_example_hyps(6) discount_example_hyps(7) d]
  obtain s' res e1 e2 e3 where
    "settlePayment 0 (discount_example 10000000000) = (s', Inr res)"
    "find (\<lambda>i. pi_id i = 0) (paymentIntent s') = Some (intent_O2\<lparr>pi_status := SETTLED\<rparr>)"
    "ledgerEntry s' = ledgerEntry (discount_example 10000000000) @ [e1, e2, e3]"
    "sr_ledgerEntries res = [toResult e1, toResult e2, toResult e3]"
    "amount e1 = pi_amount intent_O2" "reference e1 = pi_reference intent_O2"
    "amount e2 = pi_discountAmount intent_O2" "reference e2 = pi_reference intent_O2 @ ''_DISC''"
    "amount e3 = pi_discountAmount intent_O2"
    "reference e3 = pi_reference intent_O2 @ ''_DISC_ESCROW''"
    "map_option c_balance (walletBalanceCache s' MARKETING_WALLET)
       = map_option (\<lambda>m. c_balance m - pi_discountAmount intent_O2)
           (walletBalanceCache (discount_example 10000000000) MARKETING_WALLET)"
    using discount_example_hyps(8) by auto
  then show ?thesis
    by (simp add: toResult_def discount_example_hyps(9)) (simp add: intent_O2_def discount_example_def)
qed

text \<open>
  The claim as stated fails: the intent of \<open>discount_example 10000000\<close> is in status
  CONFIRMING with discount 2000.0000, MARKETING_WALLET holds 1000.0000; settlePayment
  fails with INSUFFICIENT_BALANCE, appends nothing and leaves the intent CONFIRMING.
\<close>

theorem settlePayment_emits_counterexample:
  "paymentIntent (discount_example 10000000) = [intent_O2] \<and> pi_id intent_O2 = 0
   \<and> pi_status intent_O2 = CONFIRMING \<and> pi_discountAmount intent_O2 = 20000000
   \<and> settlePayment 0 (discount_example 10000000)
       = (discount_example 10000000,
          Inl (INSUFFICIENT_BALANCE ''MARKETING_WALLET'' 10000000 ''2000''))"
proof -
  have ts: "Decimal_toString 20000000 = ''2000''" by code_simp
  have lt: "c_balance \<lparr>c_accountId = ''MARKETING_WALLET'', c_balance = 10000000,
                        c_currency = ''NGN'', c_lastEntrySeq = 1\<rparr> < pi_discountAmount intent_O2"
    by (simp add: intent_O2_def)
  from settle_insufficient_marketing
    [OF discount_example_hyps(1) discount_example_hyps(2) discount_example_hyps(3)
        discount_example_hyps(4) discount_example_hyps(6) discount_example_hyps(7)
        discount_example_hyps(8) discount_example_hyps(9) lt]
  have "settlePayment 0 (discount_example 10000000)
       = (discount_example 10000000,
          Inl (INSUFFICIENT_BALANCE MARKETING_WALLET 10000000
                 (Decimal_toString (pi_discountAmount intent_O2))))"
    by simp
  then show ?thesis
    by (simp add: intent_O2_def ts MARKETING_WALLET_def) (simp add: discount_example_def intent_O2_def)
qed

text \<open>
  C3. Whenever the callback of settlePayment throws, whatever it had written, the store
  after settlePayment is the store before it and the caller gets the error. In
  particular, for a CONFIRMING intent with a positive discount that exceeds the cached
  MARKETING_WALLET balance (fresh references, non-negative amount and escrow balance),
  the callback appends the primary credit and the debit entry and then throws
  INSUFFICIENT_BALANCE, and settlePayment returns that error with the store unchanged:
  no entry is persisted, no balance row changes, the intent stays CONFIRMING.
\<close>

theorem settlePayment_rolls_back:
  "(\<forall>tx e. settlePayment_callback intentId s = (tx, Inl e) \<longrightarrow>
             settlePayment intentId s = (s, Inl e))
   \<and> (find (\<lambda>i. pi_id i = intentId) (paymentIntent s) = Some intent
      \<and> pi_status intent = CONFIRMING
      \<and> findUnique_accountId_reference (ledgerEntry s) PLATFORM_ESCROW (pi_reference intent) = None
      \<and> findUnique_accountId_reference (ledgerEntry s) MARKETING_WALLET
          (pi_reference intent @ ''_DISC'') = None
      \<and> 0 \<le> pi_amount intent
      \<and> (case walletBalanceCache s PLATFORM_ESCROW of None \<Rightarrow> True | Some c \<Rightarrow> 0 \<le> c_balance c)
      \<and> 0 < pi_discountAmount intent
      \<and> walletBalanceCache s MARKETING_WALLET = Some m
      \<and> c_balance m < pi_discountAmount intent
      \<longrightarrow> settlePayment intentId s =
             (s, Inl (INSUFFICIENT_BALANCE MARKETING_WALLET (c_balance m)
                        (Decimal_toString (pi_discountAmount intent))))
        \<and> (\<exists>tx. settlePayment_callback intentId s =
                   (tx, Inl (INSUFFICIENT_BALANCE MARKETING_WALLET (c_balance m)
                               (Decimal_toString (pi_discountAmount intent))))
               \<and> length (ledgerEntry tx) = length (ledgerEntry s) + 2))"
proof (intro conjI allI impI)
  fix tx e
  assume "settlePayment_callback intentId s = (tx, Inl e)"
  then show "settlePayment intentId s = (s, Inl e)"
    unfolding settlePayment_def by (rule transaction_rollback)
next
  assume h: "find (\<lambda>i. pi_id i = intentId) (paymentIntent s) = Some intent
      \<and> pi_status intent = CONFIRMING
      \<and> findUnique_accountId_reference (ledgerEntry s) PLATFORM_ESCROW (pi_reference intent) = None
      \<and> findUnique_accountId_reference (ledgerEntry s) MARKETING_WALLET
          (pi_reference intent @ ''_DISC'') = None
      \<and> 0 \<le> pi_amount intent
      \<and> (case walletBalanceCache s PLATFORM_ESCROW of None \<Rightarrow> True | Some c \<Rightarrow> 0 \<le> c_balance c)
      \<and> 0 < pi_discountAmount intent
      \<and> walletBalanceCache s MARKETING_WALLET = Some m
      \<and> c_balance m < pi_discountAmount intent"
  have both: "settlePayment intentId s =
             (s, Inl (INSUFFICIENT_BALANCE MARKETING_WALLET (c_balance m)
                        (Decimal_toString (pi_discountAmount intent))))
        \<and> (\<exists>tx. settlePayment_callback intentId s =
                   (tx, Inl (INSUFFICIENT_BALANCE MARKETING_WALLET (c_balance m)
                               (Decimal_toString (pi_discountAmount intent))))
               \<and> length (ledgerEntry tx) = length (ledgerEntry s) + 2)"
    by (rule settle_insufficient_marketing) (use h in simp_all)
  from both show "settlePayment intentId s =
             (s, Inl (INSUFFICIENT_BALANCE MARKETING_WALLET (c_balance m)
                        (Decimal_toString (pi_discountAmount intent))))" by blast
  from both show "\<exists>tx. settlePayment_callback intentId s =
                   (tx, Inl (INSUFFICIENT_BALANCE MARKETING_WALLET (c_balance m)
                               (Decimal_toString (pi_discountAmount intent))))
               \<and> length (ledgerEntry tx) = length (ledgerEntry s) + 2" by blast
qed

theorem settlePayment_rolls_back_witness:
  "settlePayment 0 (discount_example 19999999)
     = (discount_example 19999999,
        Inl (INSUFFICIENT_BALANCE MARKETING_WALLET 19999999 (Decimal_toString 20000000)))
   \<and> filter (\<lambda>e. prefix ''PAYMENT_O2'' (reference e))
        (ledgerEntry (fst (settlePayment 0 (discount_example 19999999)))) = []
   \<and> paymentIntent (fst (settlePayment 0 (discount_example 19999999))) = [intent_O2]
   \<and> pi_status intent_O2 = CONFIRMING
   \<and> (\<exists>tx e. settlePayment_callback 0 (discount_example 19999999) = (tx, Inl e)
             \<and> length (ledgerEntry tx) = 3)"
proof -
  have h: "find (\<lambda>i. pi_id i = 0) (paymentIntent (discount_example 19999999)) = Some intent_O2
      \<and> pi_status intent_O2 = CONFIRMING
      \<and> findUnique_accountId_reference (ledgerEntry (discount_example 19999999)) PLATFORM_ESCROW
          (pi_reference intent_O2) = None
      \<and> findUnique_accountId_reference (ledgerEntry (discount_example 19999999)) MARKETING_WALLET
          (pi_reference intent_O2 @ ''_DISC'') = None
      \<and> 0 \<le> pi_amount intent_O2
      \<and> (case walletBalanceCache (discount_example 19999999) PLATFORM_ESCROW of
            None \<Rightarrow> True | Some c \<Rightarrow> 0 \<le> c_balance c)
      \<and> 0 < pi_discountAmount intent_O2
      \<and> walletBalanceCache (discount_example 19999999) MARKETING_WALLET =
            Some \<lparr>c_accountId = ''MARKETING_WALLET'', c_balance = 19999999, c_currency = ''NGN'',
                  c_lastEntrySeq = 1\<rparr>
      \<and> c_balance \<lparr>c_accountId = ''MARKETING_WALLET'', c_balance = 19999999, c_currency = ''NGN'',
                     c_lastEntrySeq = 1\<rparr> < pi_discountAmount intent_O2"
    by (simp add: discount_example_hyps) (simp add: intent_O2_def)
  from settlePayment_rolls_back [THEN conjunct2, rule_format, OF h]
  have run: "settlePayment 0 (discount_example 19999999)
     = (discount_example 19999999,
        Inl (INSUFFICIENT_BALANCE MARKETING_WALLET 19999999
               (Decimal_toString (pi_discountAmount intent_O2))))"
    and cb: "\<exists>tx. settlePayment_callback 0 (discount_example 19999999) =
                   (tx, Inl (INSUFFICIENT_BALANCE MARKETING_WALLET 19999999
                               (Decimal_toString (pi_discountAmount intent_O2))))
               \<and> length (ledgerEntry tx) = length (ledgerEntry (discount_example 19999999)) + 2"
    by simp_all
  have len: "length (ledgerEntry (discount_example 19999999)) = 1"
    by (simp add: discount_example_def)
  from cb len have cb': "\<exists>tx e. settlePayment_callback 0 (discount_example 19999999) = (tx, Inl e)
             \<and> length (ledgerEntry tx) = 3"
    by auto
  have d: "pi_discountAmount intent_O2 = 20000000" by (simp add: intent_O2_def)
  show ?thesis
    using cb' by (simp add: run d discount_example_hyps(2)) (simp add: discount_example_def)
qed

text \<open>
  C6. For an intent that is already SETTLED, settlePayment returns every ledger entry
  whose reference starts with the reference of the intent, also entries of other
  intents: after the intents of the orders O1 and O10 have both been settled, settling
  O1 again returns "Payment already settled" with the entry PAYMENT_O1 and the entry
  PAYMENT_O10 of the other intent.
\<close>

theorem settled_replay_returns_foreign_entries:
  "case settlePayment 0 (fst (settlePayment 1 (fst (settlePayment 0 two_confirming_example)))) of
     (s, Inl e) \<Rightarrow> False
   | (s, Inr res) \<Rightarrow>
       sr_message res = ''Payment already settled''
     \<and> map r_reference (sr_ledgerEntries res) = [''PAYMENT_O1'', ''PAYMENT_O10'']
     \<and> map pi_status (paymentIntent s) = [SETTLED, SETTLED]"
  by (simp add: settlePayment_def transaction_def settlePayment_callback_def appendEntry_def
      amountStr_of_def Decimal_new_toString findUnique_accountId_reference_def
      findFirst_last_def toResult_def two_confirming_example_def empty_db_def
      PLATFORM_ESCROW_def Let_def)

section \<open>Webhook ingress\<close>

text \<open>
  C7. Outside development mode the flutterwave check rejects every signature, also the
  one that equals the configured secret hash: with NODE_ENV = production, the secret
  \<open>secret\<close> configured and the header verif-hash carrying the same \<open>secret\<close>,
  \<open>verifySignature\<close> is false and \<open>processWebhook\<close> stores the entry as FAILED.
\<close>

theorem flutterwave_matching_signature_rejected:
  "verifySignature \<lparr>NODE_ENV = Some ''production'', FLUTTERWAVE_SECRET_HASH = Some secret\<rparr>
     flutterwave body [(''verif-hash'', secret)] = False
   \<and> wr_status (snd (processWebhook
         \<lparr>NODE_ENV = Some ''production'', FLUTTERWAVE_SECRET_HASH = Some secret\<rparr> now
         \<lparr>wp_provider = flutterwave, wp_providerEventId = ''flw_1'', wp_reference = Some ''PAYMENT_O1'',
          wp_payload = body, wp_headers = [(''verif-hash'', secret)], wp_rawBody = body\<rparr>
         empty_db)) = WH_FAILED"
  by (simp add: verifySignature_def verifyFlutterwaveSignature_def processWebhook_def Let_def
      empty_db_def update_webhook_def)





text \<open>
  C9. A webhook that passes signature verification ends with status PROCESSED whether or
  not it carries a reference, and the settlement service is never called: in development
  mode, on a store holding the CONFIRMING intent PAYMENT_O1, the webhook without
  reference is stored as PROCESSED, and the webhook with reference PAYMENT_O1 is stored as
  PROCESSED while the intent stays CONFIRMING and the ledger stays empty.
\<close>

theorem processWebhook_processed_without_settlement:
  "(case processWebhook \<lparr>NODE_ENV = Some ''development'', FLUTTERWAVE_SECRET_HASH = None\<rparr> 9
           \<lparr>wp_provider = flutterwave, wp_providerEventId = ''flw_1'', wp_reference = None,
            wp_payload = ''{}'', wp_headers = [], wp_rawBody = ''{}''\<rparr> confirming_example of
      (s', r) \<Rightarrow> wr_status r = PROCESSED \<and> map wh_status (webhookInbox s') = [PROCESSED])
   \<and> (case processWebhook \<lparr>NODE_ENV = Some ''development'', FLUTTERWAVE_SECRET_HASH = None\<rparr> 9
           \<lparr>wp_provider = flutterwave, wp_providerEventId = ''flw_2'',
            wp_reference = Some ''PAYMENT_O1'', wp_payload = ''{}'', wp_headers = [],
            wp_rawBody = ''{}''\<rparr> confirming_example of
      (s', r) \<Rightarrow> wr_status r = PROCESSED \<and> map wh_status (webhookInbox s') = [PROCESSED]
                  \<and> map pi_status (paymentIntent s') = [CONFIRMING] \<and> ledgerEntry s' = [])"
  by (simp add: processWebhook_def verifySignature_def verifyFlutterwaveSignature_def Let_def
      triggerSettlement_def update_webhook_def confirming_example_def empty_db_def)

section \<open>Payment intent creation\<close>

text \<open>
  C10. When the reference derived from the order id already names a stored intent, the
  amounts are still validated first: the call fails with INVALID_AMOUNTS when
  originalAmount < amount, else with INVALID_AMOUNT when amount \<le> 0, else with
  DISCOUNT_CODE_REQUIRED when the discount is positive and no discount code is given; the
  stored intent is returned, and nothing is written, only when none of these holds.
\<close>

theorem create_validates_before_idempotency_probe:
  assumes "Decimal_new (dto_amount dto) = Some a"
    and "Decimal_new (dto_originalAmount dto) = Some oa"
    and "find (\<lambda>i. pi_reference i = generatePaymentReference (dto_orderId dto)) (paymentIntent s)
           = Some existing"
  shows "create dto s =
           (s, if oa < a then Inl INVALID_AMOUNTS
               else if a \<le> 0 then Inl INVALID_AMOUNT
               else if 0 < oa - a \<and> falsy (dto_discountCode dto) then Inl DISCOUNT_CODE_REQUIRED
               else Inr existing)"
  using assms by (simp add: create_def validateInvariants_def Let_def)

lemma Decimal_new_8000: "Decimal_new ''8000.0000'' = Some 80000000"
  by code_simp

lemma Decimal_new_10000: "Decimal_new ''10000.0000'' = Some 100000000"
  by code_simp

theorem create_validates_before_idempotency_probe_witness:
  "create
     \<lparr>dto_orderId = ''O1'', dto_amount = ''8000.0000'', dto_originalAmount = ''10000.0000'',
      dto_discountCode = None, dto_provider = flutterwave, dto_currency = None,
      dto_metadata = None\<rparr>
     (empty_db\<lparr>paymentIntent :=
        [\<lparr>pi_id = 0, pi_reference = ''PAYMENT_O1'', pi_orderId = ''O1'', pi_amount = 100000000,
          pi_originalAmount = 100000000, pi_discountAmount = 0, pi_discountCode = None,
          pi_provider = flutterwave, pi_currency = ''NGN'', pi_status = PENDING,
          pi_metadata = None\<rparr>]\<rparr>)
   = (empty_db\<lparr>paymentIntent :=
        [\<lparr>pi_id = 0, pi_reference = ''PAYMENT_O1'', pi_orderId = ''O1'', pi_amount = 100000000,
          pi_originalAmount = 100000000, pi_discountAmount = 0, pi_discountCode = None,
          pi_provider = flutterwave, pi_currency = ''NGN'', pi_status = PENDING,
          pi_metadata = None\<rparr>]\<rparr>,
      Inl DISCOUNT_CODE_REQUIRED)"
  using create_validates_before_idempotency_probe
    [of "\<lparr>dto_orderId = ''O1'', dto_amount = ''8000.0000'', dto_originalAmount = ''10000.0000'',
          dto_discountCode = None, dto_provider = flutterwave, dto_currency = None,
          dto_metadata = None\<rparr>" 80000000 100000000
        "empty_db\<lparr>paymentIntent :=
          [\<lparr>pi_id = 0, pi_reference = ''PAYMENT_O1'', pi_orderId = ''O1'', pi_amount = 100000000,
            pi_originalAmount = 100000000, pi_discountAmount = 0, pi_discountCode = None,
            pi_provider = flutterwave, pi_currency = ''NGN'', pi_status = PENDING,
            pi_metadata = None\<rparr>]\<rparr>"
        "\<lparr>pi_id = 0, pi_reference = ''PAYMENT_O1'', pi_orderId = ''O1'', pi_amount = 100000000,
          pi_originalAmount = 100000000, pi_discountAmount = 0, pi_discountCode = None,
          pi_provider = flutterwave, pi_currency = ''NGN'', pi_status = PENDING,
          pi_metadata = None\<rparr>"]
  by (simp add: Decimal_new_8000 Decimal_new_10000 generatePaymentReference_def falsy_def empty_db_def)

section \<open>The hash of the genesis entry\<close>

text \<open>
  SHA-256 of the two hash inputs of the genesis entry, block by block: the blocks of the
  padded message, one lemma for each application of the compression function, and the
  digest.
\<close>

lemma genesis_blocks_seed:
  "sha256_blocks
     (canonical None ''MARKETING_WALLET'' 1 ''GENESIS_MARKETING_WALLET'' ''CREDIT'' ''1000000.0000''
       (Some ''Marketing subsidy wallet for discount campaigns - Initial funding'')) =
     [[2065854578, 1702250593, 1936204346, 1853189228, 740450659, 1668248942,
       1950966818, 975326529, 1380664660, 1229866847, 1463897164, 1163141676,
       578249068, 1818588243, 1701913146, 824975986],
      [1701209458, 1701733221, 574235207, 1162757459, 1230200653, 1095912261,
       1414090311, 1599553868, 1279611938, 740451694, 1953659220, 2037409058,
       975323986, 1162103124, 573317729, 1836021102],
      [1948400162, 825241648, 808464430, 808464432, 573317732, 1702060914,
       1768977513, 1869488698, 575496562, 1801811049, 1852252275, 1969386345,
       1685659767, 1634495589, 1948280431, 1914725481],
      [1935896437, 1853104227, 1634562145, 1768386163, 539828297, 1852404841,
       1634476134, 1970168937, 1852252797, 2147483648, 0, 0,
       0, 0, 0, 1824]]"
  by code_simp

lemma genesis_blocks_verify:
  "sha256_blocks
     (canonical None ''MARKETING_WALLET'' 1 ''GENESIS_MARKETING_WALLET'' ''CREDIT'' ''1000000''
       (Some ''Marketing subsidy wallet for discount campaigns - Initial funding'')) =
     [[2065854578, 1702250593, 1936204346, 1853189228, 740450659, 1668248942,
       1950966818, 975326529, 1380664660, 1229866847, 1463897164, 1163141676,
       578249068, 1818588243, 1701913146, 824975986],
      [1701209458, 1701733221, 574235207, 1162757459, 1230200653, 1095912261,
       1414090311, 1599553868, 1279611938, 740451694, 1953659220, 2037409058,
       975323986, 1162103124, 573317729, 1836021102],
      [1948400162, 825241648, 808464418, 740451429, 1935897193, 1886677359,
       1847736866, 1298231915, 1702127982, 1730179957, 1651730788, 2032170849,
       1819043188, 543584114, 543451507, 1668248942],
      [1948279649, 1836081513, 1735291680, 757090670, 1769236833, 1814062709,
       1852074350, 1730313600, 0, 0, 0, 0,
       0, 0, 0, 1784]]"
  by code_simp

lemma genesis_compress_1:
  "compress
     H0
     [2065854578, 1702250593, 1936204346, 1853189228, 740450659, 1668248942,
     1950966818, 975326529, 1380664660, 1229866847, 1463897164, 1163141676,
     578249068, 1818588243, 1701913146, 824975986] =
     [2253563715, 2852510578, 1492047164, 851560869, 3597519956, 2285803997,
     1584049310, 4074031314]"
  by code_simp

lemma genesis_compress_2:
  "compress
     [2253563715, 2852510578, 1492047164, 851560869, 3597519956, 2285803997,
       1584049310, 4074031314]
     [1701209458, 1701733221, 574235207, 1162757459, 1230200653, 1095912261,
     1414090311, 1599553868, 1279611938, 740451694, 1953659220, 2037409058,
     975323986, 1162103124, 573317729, 1836021102] =
     [1087320078, 656276621, 2201122025, 87868156, 826085102, 464581292,
     676208893, 2450362123]"
  by code_simp

lemma genesis_compress_3_seed:
  "compress
     [1087320078, 656276621, 2201122025, 87868156, 826085102, 464581292,
       676208893, 2450362123]
     [1948400162, 825241648, 808464430, 808464432, 573317732, 1702060914,
     1768977513, 1869488698, 575496562, 1801811049, 1852252275, 1969386345,
     1685659767, 1634495589, 1948280431, 1914725481] =
     [2674605060, 1533747657, 1323686995, 1683242448, 3751120801, 341883407,
     1707173775, 1056249015]"
  by code_simp

lemma genesis_compress_4_seed:
  "compress
     [2674605060, 1533747657, 1323686995, 1683242448, 3751120801, 341883407,
       1707173775, 1056249015]
     [1935896437, 1853104227, 1634562145, 1768386163, 539828297, 1852404841,
     1634476134, 1970168937, 1852252797, 2147483648, 0, 0,
     0, 0, 0, 1824] =
     [1376043813, 2543004211, 1574283488, 4057256168, 3496848642, 963062592,
     3414698794, 3157224889]"
  by code_simp

lemma genesis_compress_3_verify:
  "compress
     [1087320078, 656276621, 2201122025, 87868156, 826085102, 464581292,
       676208893, 2450362123]
     [1948400162, 825241648, 808464418, 740451429, 1935897193, 1886677359,
     1847736866, 1298231915, 1702127982, 1730179957, 1651730788, 2032170849,
     1819043188, 543584114, 543451507, 1668248942] =
     [2571030, 511015262, 3684635106, 3412871427, 718089780, 834078717,
     3948844417, 3705273708]"
  by code_simp

lemma genesis_compress_4_verify:
  "compress
     [2571030, 511015262, 3684635106, 3412871427, 718089780, 834078717,
       3948844417, 3705273708]
     [1948279649, 1836081513, 1735291680, 757090670, 1769236833, 1814062709,
     1852074350, 1730313600, 0, 0, 0, 0,
     0, 0, 0, 1784] =
     [227297784, 3477728367, 3463895133, 980034684, 3168653023, 1558512017,
     2818737363, 1472342049]"
  by code_simp

lemma genesis_hash_seed:
  "computeEntryHash None ''MARKETING_WALLET'' 1 ''GENESIS_MARKETING_WALLET'' ''CREDIT'' ''1000000.0000''
     (Some ''Marketing subsidy wallet for discount campaigns - Initial funding'') =
     ''5204c32597932a335dd5a8e0f1d4d0e8d06dad0239672b40cb882b2abc2f6db9''"
  unfolding computeEntryHash_def sha256_hex_def genesis_blocks_seed foldl.simps
    genesis_compress_1 genesis_compress_2 genesis_compress_3_seed genesis_compress_4_seed
  by code_simp

lemma genesis_hash_verify:
  "computeEntryHash None ''MARKETING_WALLET'' 1 ''GENESIS_MARKETING_WALLET'' ''CREDIT'' ''1000000''
     (Some ''Marketing subsidy wallet for discount campaigns - Initial funding'') =
     ''0d8c49f8cf49ec6fce76d85d3a6a247cbcddcedf5ce50191a80284d357c22821''"
  unfolding computeEntryHash_def sha256_hex_def genesis_blocks_verify foldl.simps
    genesis_compress_1 genesis_compress_2 genesis_compress_3_verify genesis_compress_4_verify
  by code_simp

lemma Decimal_new_genesis: "Decimal_new ''1000000.0000'' = Some 10000000000"
  by code_simp

lemma Decimal_new_zero: "Decimal_new ''0.0000'' = Some 0"
  by code_simp

lemma Decimal_toString_genesis: "Decimal_toString 10000000000 = ''1000000''"
  by code_simp

lemma Decimal_toFixed4_genesis: "Decimal_toFixed4 10000000000 = ''1000000.0000''"
  by code_simp

lemma show_int_1: "show_int 1 = ''1''"
  by code_simp

lemma seeded_ledger:
  "snd (seed_main empty_db) = Inr ()
   \<and> ledgerEntry (fst (seed_main empty_db)) =
       [\<lparr>id = 0, accountId = ''MARKETING_WALLET'', walletSeq = 1,
         reference = ''GENESIS_MARKETING_WALLET'', orderId = None, entryType = CREDIT,
         amount = 10000000000,
         description = Some ''Marketing subsidy wallet for discount campaigns - Initial funding'',
         prevHash = None,
         entryHash = ''5204c32597932a335dd5a8e0f1d4d0e8d06dad0239672b40cb882b2abc2f6db9''\<rparr>]"
  by (simp add: seed_main_def SYSTEM_ACCOUNTS_def seedAccount_def empty_db_def Let_def
      Decimal_new_genesis Decimal_new_zero genesis_hash_seed)

text \<open>
  C1. The stored hash of an untampered entry is not always the hash recomputed from its
  stored fields. (1) On the store that the seed script leaves, verifyChain reports the
  chain of MARKETING_WALLET as broken at sequence 1: the seed script hashed the amount
  string 1000000.0000, verifyChain hashes \<open>entry.amount.toString()\<close>, which is 1000000.
  (2) The same happens when that entry is produced by appendEntry with the amount given
  as the string 1000000.0000. (3) When appendEntry is given the amount as a Decimal, it
  hashes \<open>amount.toString()\<close>: the stored hash is the hash of 1000000, and recomputing
  the hash from the stored fields with the amount at scale 4 gives another value.
\<close>

theorem verifyChain_rejects_untampered_chain:
  "verifyChain (fst (seed_main empty_db)) ''MARKETING_WALLET'' None None =
     \<lparr>v_accountId = ''MARKETING_WALLET'', v_valid = False, v_entriesVerified = 0,
      v_brokenAtSeq = Some 1,
      v_expectedHash = Some ''0d8c49f8cf49ec6fce76d85d3a6a247cbcddcedf5ce50191a80284d357c22821'',
      v_actualHash = Some ''5204c32597932a335dd5a8e0f1d4d0e8d06dad0239672b40cb882b2abc2f6db9'',
      v_message = ''Chain broken at sequence 1''\<rparr>
   \<and> (case transaction (appendEntry
              \<lparr>p_reference = ''GENESIS_MARKETING_WALLET'', p_orderId = None,
               p_accountId = ''MARKETING_WALLET'', p_entryType = CREDIT,
               p_amount = AmountString ''1000000.0000'',
               p_description =
                 Some ''Marketing subsidy wallet for discount campaigns - Initial funding''\<rparr>)
              empty_db of
         (s, Inl e) \<Rightarrow> False
       | (s, Inr r) \<Rightarrow>
           r_entryHash r = ''5204c32597932a335dd5a8e0f1d4d0e8d06dad0239672b40cb882b2abc2f6db9''
         \<and> verifyChain s ''MARKETING_WALLET'' None None =
             \<lparr>v_accountId = ''MARKETING_WALLET'', v_valid = False, v_entriesVerified = 0,
              v_brokenAtSeq = Some 1,
              v_expectedHash = Some ''0d8c49f8cf49ec6fce76d85d3a6a247cbcddcedf5ce50191a80284d357c22821'',
              v_actualHash = Some ''5204c32597932a335dd5a8e0f1d4d0e8d06dad0239672b40cb882b2abc2f6db9'',
              v_message = ''Chain broken at sequence 1''\<rparr>)
   \<and> (case transaction (appendEntry
              \<lparr>p_reference = ''GENESIS_MARKETING_WALLET'', p_orderId = None,
               p_accountId = ''MARKETING_WALLET'', p_entryType = CREDIT,
               p_amount = AmountDecimal 10000000000,
               p_description =
                 Some ''Marketing subsidy wallet for discount campaigns - Initial funding''\<rparr>)
              empty_db of
         (s, Inl e) \<Rightarrow> False
       | (s, Inr r) \<Rightarrow>
           r_entryHash r = ''0d8c49f8cf49ec6fce76d85d3a6a247cbcddcedf5ce50191a80284d357c22821''
         \<and> Decimal_toFixed4 (r_amount r) = ''1000000.0000''
         \<and> computeEntryHash (r_prevHash r) (r_accountId r) (r_walletSeq r) (r_reference r)
               (entryType_string (r_entryType r)) (Decimal_toFixed4 (r_amount r))
               (Some ''Marketing subsidy wallet for discount campaigns - Initial funding'')
             = ''5204c32597932a335dd5a8e0f1d4d0e8d06dad0239672b40cb882b2abc2f6db9'')"
proof -
  have seeded: "verifyChain (fst (seed_main empty_db)) ''MARKETING_WALLET'' None None =
     \<lparr>v_accountId = ''MARKETING_WALLET'', v_valid = False, v_entriesVerified = 0,
      v_brokenAtSeq = Some 1,
      v_expectedHash = Some ''0d8c49f8cf49ec6fce76d85d3a6a247cbcddcedf5ce50191a80284d357c22821'',
      v_actualHash = Some ''5204c32597932a335dd5a8e0f1d4d0e8d06dad0239672b40cb882b2abc2f6db9'',
      v_message = ''Chain broken at sequence 1''\<rparr>"
    by (simp add: verifyChain_def in_window_def seeded_ledger Let_def entryType_string_def
        Decimal_toString_genesis genesis_hash_verify show_int_1)
  have appended: "transaction (appendEntry
              \<lparr>p_reference = ''GENESIS_MARKETING_WALLET'', p_orderId = None,
               p_accountId = ''MARKETING_WALLET'', p_entryType = CREDIT,
               p_amount = AmountString ''1000000.0000'',
               p_description =
                 Some ''Marketing subsidy wallet for discount campaigns - Initial funding''\<rparr>)
              empty_db =
      (empty_db\<lparr>ledgerEntry :=
          [\<lparr>id = 0, accountId = ''MARKETING_WALLET'', walletSeq = 1,
            reference = ''GENESIS_MARKETING_WALLET'', orderId = None, entryType = CREDIT,
            amount = 10000000000,
            description = Some ''Marketing subsidy wallet for discount campaigns - Initial funding'',
            prevHash = None,
            entryHash = ''5204c32597932a335dd5a8e0f1d4d0e8d06dad0239672b40cb882b2abc2f6db9''\<rparr>],
         walletBalanceCache :=
          [''MARKETING_WALLET'' \<mapsto>
             \<lparr>c_accountId = ''MARKETING_WALLET'', c_balance = 10000000000, c_currency = ''NGN'',
              c_lastEntrySeq = 1\<rparr>]\<rparr>,
       Inr \<lparr>r_id = 0, r_accountId = ''MARKETING_WALLET'', r_walletSeq = 1,
            r_reference = ''GENESIS_MARKETING_WALLET'', r_entryType = CREDIT,
            r_amount = 10000000000,
            r_entryHash = ''5204c32597932a335dd5a8e0f1d4d0e8d06dad0239672b40cb882b2abc2f6db9'',
            r_prevHash = None\<rparr>)"
    by (simp add: transaction_def appendEntry_def amountStr_of_def Decimal_new_genesis
        findUnique_accountId_reference_def findFirst_last_def empty_db_def toResult_def
        entryType_string_def genesis_hash_seed Let_def)
  have appended_decimal: "transaction (appendEntry
              \<lparr>p_reference = ''GENESIS_MARKETING_WALLET'', p_orderId = None,
               p_accountId = ''MARKETING_WALLET'', p_entryType = CREDIT,
               p_amount = AmountDecimal 10000000000,
               p_description =
                 Some ''Marketing subsidy wallet for discount campaigns - Initial funding''\<rparr>)
              empty_db =
      (empty_db\<lparr>ledgerEntry :=
          [\<lparr>id = 0, accountId = ''MARKETING_WALLET'', walletSeq = 1,
            reference = ''GENESIS_MARKETING_WALLET'', orderId = None, entryType = CREDIT,
            amount = 10000000000,
            description = Some ''Marketing subsidy wallet for discount campaigns - Initial funding'',
            prevHash = None,
            entryHash = ''0d8c49f8cf49ec6fce76d85d3a6a247cbcddcedf5ce50191a80284d357c22821''\<rparr>],
         walletBalanceCache :=
          [''MARKETING_WALLET'' \<mapsto>
             \<lparr>c_accountId = ''MARKETING_WALLET'', c_balance = 10000000000, c_currency = ''NGN'',
              c_lastEntrySeq = 1\<rparr>]\<rparr>,
       Inr \<lparr>r_id = 0, r_accountId = ''MARKETING_WALLET'', r_walletSeq = 1,
            r_reference = ''GENESIS_MARKETING_WALLET'', r_entryType = CREDIT,
            r_amount = 10000000000,
            r_entryHash = ''0d8c49f8cf49ec6fce76d85d3a6a247cbcddcedf5ce50191a80284d357c22821'',
            r_prevHash = None\<rparr>)"
    by (simp add: transaction_def appendEntry_def amountStr_of_def Decimal_toString_genesis
        Decimal_new_toString [of 10000000000, unfolded Decimal_toString_genesis]
        findUnique_accountId_reference_def findFirst_last_def empty_db_def toResult_def
        entryType_string_def genesis_hash_verify Let_def)
  have verified: "verifyChain (empty_db\<lparr>ledgerEntry :=
          [\<lparr>id = 0, accountId = ''MARKETING_WALLET'', walletSeq = 1,
            reference = ''GENESIS_MARKETING_WALLET'', orderId = None, entryType = CREDIT,
            amount = 10000000000,
            description = Some ''Marketing subsidy wallet for discount campaigns - Initial funding'',
            prevHash = None,
            entryHash = ''5204c32597932a335dd5a8e0f1d4d0e8d06dad0239672b40cb882b2abc2f6db9''\<rparr>],
         walletBalanceCache :=
          [''MARKETING_WALLET'' \<mapsto>
             \<lparr>c_accountId = ''MARKETING_WALLET'', c_balance = 10000000000, c_currency = ''NGN'',
              c_lastEntrySeq = 1\<rparr>]\<rparr>) ''MARKETING_WALLET'' None None =
     \<lparr>v_accountId = ''MARKETING_WALLET'', v_valid = False, v_entriesVerified = 0,
      v_brokenAtSeq = Some 1,
      v_expectedHash = Some ''0d8c49f8cf49ec6fce76d85d3a6a247cbcddcedf5ce50191a80284d357c22821'',
      v_actualHash = Some ''5204c32597932a335dd5a8e0f1d4d0e8d06dad0239672b40cb882b2abc2f6db9'',
      v_message = ''Chain broken at sequence 1''\<rparr>"
    by (simp add: verifyChain_def in_window_def Let_def entryType_string_def
        Decimal_toString_genesis genesis_hash_verify show_int_1)
  show ?thesis
    by (simp add: seeded appended appended_decimal verified entryType_string_def
        Decimal_toFixed4_genesis genesis_hash_seed)
qed

end
